theory Spec2Isabelle
  imports Main
begin

section \<open>Python strings, truth values and POSIX paths\<close>

text \<open>
  The module \<^verbatim>\<open>zeroinstall/injector/run.py\<close> is Python 2. Strings are byte strings,
  modelled as \<^typ>\<open>string\<close>; a value that may be \<^verbatim>\<open>None\<close> is a \<^typ>\<open>string option\<close>.
  The functions of this section are the library functions the module calls
  (\<^verbatim>\<open>str.startswith\<close>, \<^verbatim>\<open>str.endswith\<close>, \<^verbatim>\<open>posixpath.join\<close>, \<^verbatim>\<open>posixpath.dirname\<close>,
  \<^verbatim>\<open>' '.join\<close>, \<^verbatim>\<open>'%d' % n\<close>), written out as Python 2.7 defines them.
\<close>

definition startswith :: "string \<Rightarrow> string \<Rightarrow> bool" where
  "startswith s p = (take (length p) s = p)"

definition endswith :: "string \<Rightarrow> string \<Rightarrow> bool" where
  "endswith s p = (length p \<le> length s \<and> drop (length s - length p) s = p)"

text \<open>Python's truth value of a string or \<^verbatim>\<open>None\<close>: \<^verbatim>\<open>None\<close> and \<^verbatim>\<open>''\<close> are false.\<close>

fun truthy :: "string option \<Rightarrow> bool" where
  "truthy None = False"
| "truthy (Some s) = (s \<noteq> [])"

text \<open>\<^verbatim>\<open>a or b\<close>: the left operand when it is true, the right one otherwise.\<close>

definition py_or :: "string option \<Rightarrow> string option \<Rightarrow> string option" where
  "py_or a b = (if truthy a then a else b)"

text \<open>
  \<^verbatim>\<open>posixpath.join(a, b)\<close> for two components: an absolute \<^verbatim>\<open>b\<close> replaces \<^verbatim>\<open>a\<close>;
  otherwise \<^verbatim>\<open>b\<close> is appended, with a separator unless \<^verbatim>\<open>a\<close> is empty or ends with one.
\<close>

definition path_join :: "string \<Rightarrow> string \<Rightarrow> string" where
  "path_join a b =
     (if startswith b ''/'' then b
      else if a = [] \<or> endswith a ''/'' then a @ b
      else a @ ''/'' @ b)"

text \<open>
  \<^verbatim>\<open>posixpath.dirname(p)\<close>: \<^verbatim>\<open>head = p[:p.rfind('/') + 1]\<close>, and trailing slashes are
  stripped from \<^verbatim>\<open>head\<close> unless it is empty or consists of slashes only.
\<close>

definition dirname :: "string \<Rightarrow> string" where
  "dirname p =
     (let head = rev (dropWhile (\<lambda>c. c \<noteq> CHR ''/'') (rev p))
      in if head \<noteq> [] \<and> head \<noteq> replicate (length head) (CHR ''/'')
         then rev (dropWhile (\<lambda>c. c = CHR ''/'') (rev head))
         else head)"

text \<open>\<^verbatim>\<open>' '.join(xs)\<close>.\<close>

fun join_spaces :: "string list \<Rightarrow> string" where
  "join_spaces [] = []"
| "join_spaces [x] = x"
| "join_spaces (x # y # ys) = x @ '' '' @ join_spaces (y # ys)"

text \<open>\<^verbatim>\<open>'%d' % n\<close> for a natural number: its decimal digits.\<close>

definition digit_char :: "nat \<Rightarrow> char" where
  "digit_char d = ''0123456789'' ! d"

function decimal :: "nat \<Rightarrow> string" where
  "decimal n = (if n < 10 then [digit_char n] else decimal (n div 10) @ [digit_char (n mod 10)])"
  by pat_completeness auto
termination
  by (relation "measure (\<lambda>n. n)") auto

declare decimal.simps [simp del]

section \<open>Data model\<close>

text \<open>
  The classes of \<^verbatim>\<open>zeroinstall.injector.model\<close> and \<^verbatim>\<open>zeroinstall.injector.selections\<close>
  are not part of this module; only the attributes that \<^verbatim>\<open>run.py\<close> reads are modelled.
  A binding is either an \<^verbatim>\<open>EnvironmentBinding\<close>, with its \<^verbatim>\<open>name\<close> and the remaining
  attributes (read only by its method \<^verbatim>\<open>get_value\<close>) as a value of type \<^typ>\<open>'v\<close>, or a
  binding of another class, which \<^verbatim>\<open>_do_bindings\<close> ignores.
\<close>

datatype 'v binding = EnvironmentBinding string 'v | OtherBinding

record 'v dependency =
  dep_interface :: string
  dep_bindings :: "'v binding list"

record 'v selection =
  sel_id :: string
  sel_local_path :: "string option"
  sel_digests :: "string list"
  sel_bindings :: "'v binding list"
  sel_dependencies :: "'v dependency list"

record 'v command =
  cmd_path :: "string option"
  cmd_requires :: "'v dependency list"

text \<open>
  \<^verbatim>\<open>selections.selections\<close> is a dictionary from interface to selection. It is an
  association list here, in the order in which \<^verbatim>\<open>sels.values()\<close> iterates.
\<close>

record 'v selections =
  sels_selections :: "(string \<times> 'v selection) list"
  sels_interface :: string
  sels_command :: "'v command"

section \<open>The process and its surroundings\<close>

text \<open>
  The exceptions the module raises or lets through. The module raises
  \<^verbatim>\<open>SafeException\<close> with three different messages and \<^verbatim>\<open>Exception\<close> with one; each is
  a constructor carrying the values formatted into the message.
\<close>

datatype error =
    InvalidCommandPathError string
  | NotExecutableError string
  | MissingProgramError string string string
  | LaunchError string string
  | StoreLookupError "string list"
  | KeyError string

text \<open>What the process does that can be observed from outside, in the order it happens.\<close>

datatype event =
    StoreLookup "string list"
  | SetEnv string string
  | Info string
  | ExistsCheck string
  | Print string
  | Flush
  | Execl string "string list"

record process =
  environ :: "string \<Rightarrow> string option"
  events :: "event list"

text \<open>
  What the module calls and does not define: the implementation store
  (\<^verbatim>\<open>iface_cache.stores.lookup_any\<close>, \<^verbatim>\<open>None\<close> when it raises), the file system
  (\<^verbatim>\<open>os.path.exists\<close>), \<^verbatim>\<open>EnvironmentBinding.get_value\<close>, and \<^verbatim>\<open>os.execl\<close>
  (\<^verbatim>\<open>Some msg\<close> when it raises \<^verbatim>\<open>OSError\<close> with that message, \<^verbatim>\<open>None\<close> when the
  process image is replaced). For the child process of \<^verbatim>\<open>test_selections\<close>:
  what the program that replaced the image writes to its standard streams and the
  status \<^verbatim>\<open>os.waitpid\<close> reports for it (\<^verbatim>\<open>None\<close> when it never terminates), the text
  the \<^verbatim>\<open>logging\<close> configuration writes to standard error for an \<^verbatim>\<open>info\<close> message
  (empty when that level is disabled), and the text of \<^verbatim>\<open>traceback.print_exc()\<close>.
\<close>

record 'v world =
  lookup_any :: "string list \<Rightarrow> string option"
  path_exists :: "string \<Rightarrow> bool"
  get_value :: "string \<Rightarrow> 'v \<Rightarrow> string \<Rightarrow> string option \<Rightarrow> string"
  execl :: "string \<Rightarrow> string list \<Rightarrow> (string \<Rightarrow> string option) \<Rightarrow> string option"
  program :: "string \<Rightarrow> string list \<Rightarrow> (string \<Rightarrow> string option) \<Rightarrow> (string \<times> nat) option"
  log_text :: "string \<Rightarrow> string"
  format_exc :: "error \<Rightarrow> string"

text \<open>
  A statement of the module runs in a process state and either raises or yields a
  value, leaving a new state in both cases.
\<close>

type_synonym 'a action = "process \<Rightarrow> (error + 'a) \<times> process"

definition return :: "'a \<Rightarrow> 'a action" where
  "return x = (\<lambda>s. (Inr x, s))"

definition raise :: "error \<Rightarrow> 'a action" where
  "raise e = (\<lambda>s. (Inl e, s))"

definition bind :: "'a action \<Rightarrow> ('a \<Rightarrow> 'b action) \<Rightarrow> 'b action" where
  "bind m f = (\<lambda>s. case m s of (Inl e, s') \<Rightarrow> (Inl e, s') | (Inr x, s') \<Rightarrow> f x s')"

definition emit :: "event \<Rightarrow> unit action" where
  "emit ev = (\<lambda>s. (Inr (), s\<lparr>events := events s @ [ev]\<rparr>))"

section \<open>The binding pass\<close>

text \<open>
  \<^verbatim>\<open>do_env_binding(binding, path)\<close>, lines 15 to 23: the new value is computed from the
  implementation's path and the variable's current value, stored in \<^verbatim>\<open>os.environ\<close>
  and logged.
\<close>

definition do_env_binding :: "'v world \<Rightarrow> string \<Rightarrow> 'v \<Rightarrow> string \<Rightarrow> unit action" where
  "do_env_binding w name rule path =
     (\<lambda>s. let v = get_value w name rule path (environ s name)
          in (Inr (), s\<lparr>environ := (environ s)(name := Some v),
                          events := events s @ [SetEnv name v, Info (name @ ''='' @ v)]\<rparr>))"

text \<open>
  \<^verbatim>\<open>_get_implementation_path(impl)\<close>, lines 47 and 48:
  \<^verbatim>\<open>impl.local_path or iface_cache.stores.lookup_any(impl.digests)\<close>. The store is asked
  only when \<^verbatim>\<open>local_path\<close> is false, that is \<^verbatim>\<open>None\<close> or empty.
\<close>

definition store_lookup :: "'v world \<Rightarrow> string list \<Rightarrow> string action" where
  "store_lookup w digests =
     bind (emit (StoreLookup digests))
       (\<lambda>_. case lookup_any w digests of
               None \<Rightarrow> raise (StoreLookupError digests)
             | Some p \<Rightarrow> return p)"

definition get_implementation_path :: "'v world \<Rightarrow> 'v selection \<Rightarrow> string action" where
  "get_implementation_path w impl =
     (case sel_local_path impl of
        None \<Rightarrow> store_lookup w (sel_digests impl)
      | Some p \<Rightarrow> if p \<noteq> [] then return p else store_lookup w (sel_digests impl))"

text \<open>
  \<^verbatim>\<open>_do_bindings(impl, bindings)\<close>, lines 42 to 45. The path is resolved once for each
  environment binding, as an argument of the call, and not at all for other bindings.
\<close>

fun do_bindings :: "'v world \<Rightarrow> 'v selection \<Rightarrow> 'v binding list \<Rightarrow> unit action" where
  "do_bindings w impl [] = return ()"
| "do_bindings w impl (b # bs) =
     bind (case b of
             EnvironmentBinding name rule \<Rightarrow>
               bind (get_implementation_path w impl) (do_env_binding w name rule)
           | OtherBinding \<Rightarrow> return ())
       (\<lambda>_. do_bindings w impl bs)"

text \<open>\<^verbatim>\<open>sels[key]\<close> raises \<^verbatim>\<open>KeyError\<close> for a missing key.\<close>

definition lookup_sel :: "(string \<times> 'v selection) list \<Rightarrow> string \<Rightarrow> 'v selection action" where
  "lookup_sel sels key =
     (case map_of sels key of None \<Rightarrow> raise (KeyError key) | Some sel \<Rightarrow> return sel)"

text \<open>
  The loop over dependencies, which the module writes twice with the same body:
  lines 108 to 111 over \<^verbatim>\<open>selection.dependencies\<close> and lines 120 to 123 over
  \<^verbatim>\<open>command.requires\<close>.
\<close>

fun do_dependencies ::
  "'v world \<Rightarrow> (string \<times> 'v selection) list \<Rightarrow> 'v dependency list \<Rightarrow> unit action" where
  "do_dependencies w sels [] = return ()"
| "do_dependencies w sels (dep # deps) =
     bind (lookup_sel sels (dep_interface dep))
       (\<lambda>dep_impl.
          bind (if \<not> startswith (sel_id dep_impl) ''package:''
                then do_bindings w dep_impl (dep_bindings dep)
                else return ())
            (\<lambda>_. do_dependencies w sels deps))"

text \<open>The loop of lines 106 to 111 over \<^verbatim>\<open>sels.values()\<close>.\<close>

fun do_selections ::
  "'v world \<Rightarrow> (string \<times> 'v selection) list \<Rightarrow> 'v selection list \<Rightarrow> unit action" where
  "do_selections w sels [] = return ()"
| "do_selections w sels (selection # rest) =
     bind (do_bindings w selection (sel_bindings selection))
       (\<lambda>_. bind (do_dependencies w sels (sel_dependencies selection))
               (\<lambda>_. do_selections w sels rest))"

text \<open>
  Lines 105 to 123 of \<^verbatim>\<open>execute_selections\<close>: the pass over all selections, the
  lookup of the root selection, and the pass over the command's requirements. A value
  of the dictionary is a selection and never \<^verbatim>\<open>None\<close>, so the assertion of line 115
  holds once the lookup of line 113 has not raised.
\<close>

definition apply_bindings :: "'v world \<Rightarrow> 'v selections \<Rightarrow> 'v selection action" where
  "apply_bindings w selections =
     (let sels = sels_selections selections
      in bind (do_selections w sels (map snd sels))
           (\<lambda>_. bind (lookup_sel sels (sels_interface selections))
              (\<lambda>root_sel. bind (do_dependencies w sels (cmd_requires (sels_command selections)))
                 (\<lambda>_. return root_sel))))"

section \<open>Planning and launching\<close>

text \<open>
  Lines 125 to 148: the effective \<^verbatim>\<open>main\<close> and \<^verbatim>\<open>prog_path\<close>. The result is the pair
  of \<^verbatim>\<open>main\<close> and \<^verbatim>\<open>prog_path\<close> as they stand at line 150. \<^verbatim>\<open>effective_main\<close> is the
  chain of lines 134 to 139, \<^verbatim>\<open>check_command_path\<close> the test of lines 131 to 133.
\<close>

definition effective_main :: "string option \<Rightarrow> string option \<Rightarrow> string option" where
  "effective_main command_path main =
     (case main of
        None \<Rightarrow> command_path
      | Some m \<Rightarrow>
          if startswith m ''/'' then Some (drop 1 m)
          else (case command_path of
                  None \<Rightarrow> Some m
                | Some c \<Rightarrow> if c \<noteq> [] then Some (path_join (dirname c) m) else Some m))"

definition check_command_path :: "string option \<Rightarrow> unit action" where
  "check_command_path command_path =
     (case command_path of
        None \<Rightarrow> return ()
      | Some c \<Rightarrow> if c \<noteq> [] \<and> startswith c ''/''
                  then raise (InvalidCommandPathError c) else return ())"

definition resolve_program ::
  "'v world \<Rightarrow> 'v selection \<Rightarrow> string option \<Rightarrow> string option \<Rightarrow> (string \<times> string) action" where
  "resolve_program w root_sel command_path main =
     (if startswith (sel_id root_sel) ''package:'' then
        (case py_or main command_path of
           None \<Rightarrow> raise (NotExecutableError (sel_id root_sel))
         | Some m \<Rightarrow> return (m, m))
      else
        bind (check_command_path command_path)
          (\<lambda>_. case effective_main command_path main of
                  None \<Rightarrow> raise (NotExecutableError (sel_id root_sel))
                | Some m \<Rightarrow>
                    bind (get_implementation_path w root_sel)
                      (\<lambda>root. return (m, path_join root m))))"

text \<open>Lines 150 to 154: the program must exist.\<close>

definition check_exists :: "'v world \<Rightarrow> 'v selection \<Rightarrow> string \<times> string \<Rightarrow> string action" where
  "check_exists w root_sel mp =
     (case mp of (main, prog_path) \<Rightarrow>
        bind (emit (ExistsCheck prog_path))
          (\<lambda>_. if \<not> path_exists w prog_path
                then raise (MissingProgramError prog_path (sel_id root_sel) main)
                else return prog_path))"

text \<open>Lines 155 to 157: a wrapper, when it is a non-empty string, runs the program through the shell.\<close>

definition apply_wrapper ::
  "string option \<Rightarrow> string \<Rightarrow> string list \<Rightarrow> string \<times> string list" where
  "apply_wrapper wrapper prog_path prog_args =
     (case wrapper of
        None \<Rightarrow> (prog_path, prog_args)
      | Some wr \<Rightarrow>
          if wr \<noteq> []
          then (''/bin/sh'', [''-c'', wr @ [CHR '' '', CHR 0x22, CHR ''$'', CHR ''@'', CHR 0x22], ''-'', prog_path] @ prog_args)
          else (prog_path, prog_args))"

text \<open>
  Lines 159 to 168. A dry run prints the command and returns; otherwise the streams
  are flushed and \<^verbatim>\<open>os.execl\<close> either replaces the process image or raises.
\<close>

datatype launched = Returned | Replaced string "string list"

definition launch :: "'v world \<Rightarrow> bool \<Rightarrow> string \<times> string list \<Rightarrow> launched action" where
  "launch w dry_run pa =
     (case pa of (prog_path, prog_args) \<Rightarrow>
        if dry_run then
          bind (emit (Print (''Would execute: '' @ join_spaces (prog_path # prog_args))))
            (\<lambda>_. return Returned)
        else
          bind (emit (Info (''Executing: '' @ prog_path)))
            (\<lambda>_. bind (emit Flush)
               (\<lambda>_. bind (emit (Execl prog_path prog_args))
                  (\<lambda>_ s. case execl w prog_path prog_args (environ s) of
                           None \<Rightarrow> (Inr (Replaced prog_path prog_args), s)
                         | Some msg \<Rightarrow> (Inl (LaunchError prog_path msg), s)))))"

text \<open>Lines 125 to 157: what is to be run, from the root selection.\<close>

definition plan ::
  "'v world \<Rightarrow> 'v selection \<Rightarrow> 'v command \<Rightarrow> string list \<Rightarrow> string option \<Rightarrow> string option
     \<Rightarrow> (string \<times> string list) action" where
  "plan w root_sel command prog_args main wrapper =
     bind (resolve_program w root_sel (cmd_path command) main)
       (\<lambda>mp. bind (check_exists w root_sel mp)
          (\<lambda>prog_path. return (apply_wrapper wrapper prog_path prog_args)))"

text \<open>\<^verbatim>\<open>execute_selections\<close>, lines 89 to 168.\<close>

definition execute_selections ::
  "'v world \<Rightarrow> 'v selections \<Rightarrow> string list \<Rightarrow> bool \<Rightarrow> string option \<Rightarrow> string option
     \<Rightarrow> launched action" where
  "execute_selections w selections prog_args dry_run main wrapper =
     bind (apply_bindings w selections)
       (\<lambda>root_sel. bind (plan w root_sel (sels_command selections) prog_args main wrapper)
          (launch w dry_run))"

section \<open>The test harness\<close>

text \<open>
  The child of \<^verbatim>\<open>test_selections\<close> has file descriptors 1 and 2 redirected to one
  temporary file. What reaches the file: the output of \<^verbatim>\<open>print\<close>, followed by a
  newline, and what \<^verbatim>\<open>logging\<close> writes for \<^verbatim>\<open>info\<close>. The standard streams' buffers
  are taken to be empty at the fork, the fork and the temporary file to succeed, and
  the translation function \<^verbatim>\<open>_\<close> to return its argument.
\<close>

fun event_text :: "'v world \<Rightarrow> event \<Rightarrow> string" where
  "event_text w (Print line) = line @ [CHR 0x0A]"
| "event_text w (Info msg) = log_text w msg"
| "event_text w (StoreLookup digests) = []"
| "event_text w (SetEnv name v) = []"
| "event_text w (ExistsCheck p) = []"
| "event_text w Flush = []"
| "event_text w (Execl p a) = []"

definition written :: "'v world \<Rightarrow> event list \<Rightarrow> string" where
  "written w evs = concat (map (event_text w) evs)"

text \<open>The status \<^verbatim>\<open>os.waitpid\<close> reports for a child that called \<^verbatim>\<open>os._exit(code)\<close>.\<close>

definition wait_status_exited :: "nat \<Rightarrow> nat" where
  "wait_status_exited code = code * 256"

text \<open>
  Lines 60 to 73, the child: a copy of the parent's process, whose events are
  counted from the fork. It calls \<^verbatim>\<open>execute_selections\<close> without a wrapper. Any
  exception is caught and its traceback printed, and the \<^verbatim>\<open>finally\<close> clause ends the
  child with \<^verbatim>\<open>os._exit(1)\<close>, unless the process image was replaced: then the new
  program decides what else is written and how the child ends. The result is the
  content of the temporary file and the status of the child, or \<^verbatim>\<open>None\<close> when the
  child never terminates.
\<close>

definition run_child ::
  "'v world \<Rightarrow> 'v selections \<Rightarrow> string list \<Rightarrow> bool \<Rightarrow> string option \<Rightarrow> process
     \<Rightarrow> (string \<times> nat) option" where
  "run_child w selections prog_args dry_run main s =
     (case execute_selections w selections prog_args dry_run main None (s\<lparr>events := []\<rparr>) of
        (Inl e, c) \<Rightarrow> Some (written w (events c) @ format_exc w e, wait_status_exited 1)
      | (Inr Returned, c) \<Rightarrow> Some (written w (events c), wait_status_exited 1)
      | (Inr (Replaced prog_path prog_args'), c) \<Rightarrow>
          (case program w prog_path prog_args' (environ c) of
             None \<Rightarrow> None
           | Some (out, status) \<Rightarrow> Some (written w (events c) @ out, status)))"

text \<open>
  \<^verbatim>\<open>test_selections\<close>, lines 50 to 87, in the parent: it waits for the child, reads the
  file and appends a line when the status is not zero. The parameter \<^verbatim>\<open>wrapper\<close> is
  not used. \<^verbatim>\<open>None\<close>: the parent waits for ever.
\<close>

definition status_line :: "nat \<Rightarrow> string" where
  "status_line status = ''Error from child process: exit code = '' @ decimal status"

definition test_selections ::
  "'v world \<Rightarrow> 'v selections \<Rightarrow> string list \<Rightarrow> bool \<Rightarrow> string option \<Rightarrow> string option
     \<Rightarrow> process \<Rightarrow> ((error + string) \<times> process) option" where
  "test_selections w selections prog_args dry_run main wrapper s =
     (case run_child w selections prog_args dry_run main s of
        None \<Rightarrow> None
      | Some (results, status) \<Rightarrow>
          Some (Inr (if status \<noteq> 0 then results @ status_line status else results),
                s\<lparr>events := events s @ [Info ''Waiting for test process to finish...'']\<rparr>))"

section \<open>The walk as the specification words it\<close>

text \<open>
  The specification describes the binding pass as a list of applications, each of one
  binding against one selection's resolved path: for every selection its own
  bindings, then its dependencies' bindings against the dependency's selection unless
  that selection's id starts with \<^verbatim>\<open>package:\<close>; then the same for the requirements of
  the root command. These definitions follow that wording; the pass of the module is
  \<^const>\<open>apply_bindings\<close>.
\<close>

definition spec_dependency_tasks ::
  "(string \<times> 'v selection) list \<Rightarrow> 'v dependency list \<Rightarrow> ('v selection \<times> 'v binding) list" where
  "spec_dependency_tasks sels deps =
     concat (map (\<lambda>dep. case map_of sels (dep_interface dep) of
                          None \<Rightarrow> []
                        | Some dep_impl \<Rightarrow>
                            if startswith (sel_id dep_impl) ''package:'' then []
                            else map (Pair dep_impl) (dep_bindings dep)) deps)"

definition spec_selection_tasks ::
  "(string \<times> 'v selection) list \<Rightarrow> 'v selection \<Rightarrow> ('v selection \<times> 'v binding) list" where
  "spec_selection_tasks sels selection =
     map (Pair selection) (sel_bindings selection)
       @ spec_dependency_tasks sels (sel_dependencies selection)"

definition spec_binding_tasks :: "'v selections \<Rightarrow> ('v selection \<times> 'v binding) list" where
  "spec_binding_tasks selections =
     concat (map (spec_selection_tasks (sels_selections selections))
                 (map snd (sels_selections selections)))
       @ spec_dependency_tasks (sels_selections selections)
           (cmd_requires (sels_command selections))"

text \<open>One application: resolve the selection's path, then apply the binding to it.\<close>

definition spec_apply_task :: "'v world \<Rightarrow> 'v selection \<times> 'v binding \<Rightarrow> unit action" where
  "spec_apply_task w task =
     (case task of
        (impl, EnvironmentBinding name rule) \<Rightarrow>
          bind (get_implementation_path w impl) (do_env_binding w name rule)
      | (impl, OtherBinding) \<Rightarrow> return ())"

fun spec_apply_tasks :: "'v world \<Rightarrow> ('v selection \<times> 'v binding) list \<Rightarrow> unit action" where
  "spec_apply_tasks w [] = return ()"
| "spec_apply_tasks w (task # tasks) =
     bind (spec_apply_task w task) (\<lambda>_. spec_apply_tasks w tasks)"

text \<open>Every interface a dependency names is a key of the resolution.\<close>

definition deps_known :: "(string \<times> 'v selection) list \<Rightarrow> 'v dependency list \<Rightarrow> bool" where
  "deps_known sels deps = list_all (\<lambda>dep. map_of sels (dep_interface dep) \<noteq> None) deps"

definition complete :: "'v selections \<Rightarrow> bool" where
  "complete selections =
     (list_all (\<lambda>kv. deps_known (sels_selections selections) (sel_dependencies (snd kv)))
        (sels_selections selections)
      \<and> deps_known (sels_selections selections) (cmd_requires (sels_command selections)))"

text \<open>Whether an event is a test of a file's existence.\<close>

fun is_exists_check :: "event \<Rightarrow> bool" where
  "is_exists_check (ExistsCheck p) = True"
| "is_exists_check (StoreLookup digests) = False"
| "is_exists_check (SetEnv name v) = False"
| "is_exists_check (Info msg) = False"
| "is_exists_check (Print line) = False"
| "is_exists_check Flush = False"
| "is_exists_check (Execl p a) = False"

text \<open>
  The environment after a list of events: each \<^verbatim>\<open>SetEnv\<close> is an assignment to
  \<^verbatim>\<open>os.environ\<close>, in the order of the list; no other event touches it.
\<close>

fun apply_event :: "(string \<Rightarrow> string option) \<Rightarrow> event \<Rightarrow> (string \<Rightarrow> string option)" where
  "apply_event env (SetEnv name v) = env(name := Some v)"
| "apply_event env (StoreLookup digests) = env"
| "apply_event env (Info msg) = env"
| "apply_event env (ExistsCheck p) = env"
| "apply_event env (Print line) = env"
| "apply_event env Flush = env"
| "apply_event env (Execl p a) = env"

definition replay :: "(string \<Rightarrow> string option) \<Rightarrow> event list \<Rightarrow> (string \<Rightarrow> string option)" where
  "replay env evs = foldl apply_event env evs"

text \<open>
  An action is quiet when it only adds events to the process, none of them is a test
  of a file's existence, and the environment it leaves is the one it found with the
  assignments among these events carried out.
\<close>

definition quiet :: "'a action \<Rightarrow> bool" where
  "quiet m =
     (\<forall>s. \<exists>evs. events (snd (m s)) = events s @ evs
              \<and> environ (snd (m s)) = replay (environ s) evs
              \<and> \<not> list_ex is_exists_check evs)"

text \<open>The number that a string of decimal digits denotes.\<close>

definition digit_value :: "char \<Rightarrow> nat" where
  "digit_value c = of_char c - 48"

definition nat_of_decimal :: "string \<Rightarrow> nat" where
  "nat_of_decimal digits = foldl (\<lambda>n c. 10 * n + digit_value c) 0 digits"

section \<open>A resolution to run the definitions on\<close>

text \<open>
  An application from the store at \<^verbatim>\<open>/store/abc\<close> with the command \<^verbatim>\<open>bin/run\<close>, a
  library with a local path, and an interpreter from the host's package manager that
  carries a binding of its own.
\<close>

definition example_get_value :: "string \<Rightarrow> unit \<Rightarrow> string \<Rightarrow> string option \<Rightarrow> string" where
  "example_get_value name rule path old =
     (case old of None \<Rightarrow> path | Some v \<Rightarrow> path @ '':'' @ v)"

definition example_world :: "unit world" where
  "example_world =
     \<lparr>lookup_any = (\<lambda>digests. if digests = [''sha1=abc''] then Some ''/store/abc'' else None),
      path_exists = (\<lambda>p. p = ''/store/abc/bin/run''),
      get_value = example_get_value,
      execl = (\<lambda>prog_path prog_args env. None),
      program = (\<lambda>prog_path prog_args env. Some (''hello'', 0)),
      log_text = (\<lambda>msg. []),
      format_exc = (\<lambda>e. ''Traceback (most recent call last)'')\<rparr>"

text \<open>The same surroundings with \<^verbatim>\<open>/bin/sh\<close> as the only file that exists.\<close>

definition example_host_world :: "unit world" where
  "example_host_world = example_world\<lparr>path_exists := (\<lambda>p. p = ''/bin/sh'')\<rparr>"

text \<open>The same surroundings with programs that never terminate.\<close>

definition example_hung_world :: "unit world" where
  "example_hung_world = example_world\<lparr>program := (\<lambda>prog_path prog_args env. None)\<rparr>"

definition example_process :: process where
  "example_process = \<lparr>environ = (\<lambda>name. None), events = []\<rparr>"

definition example_lib :: "unit selection" where
  "example_lib =
     \<lparr>sel_id = ''/home/dev/lib'', sel_local_path = Some ''/home/dev/lib'', sel_digests = [],
      sel_bindings = [], sel_dependencies = []\<rparr>"

definition example_python :: "unit selection" where
  "example_python =
     \<lparr>sel_id = ''package:deb:python'', sel_local_path = Some ''/usr'', sel_digests = [],
      sel_bindings = [EnvironmentBinding ''PYTHONHOME'' ()], sel_dependencies = []\<rparr>"

definition example_app :: "unit selection" where
  "example_app =
     \<lparr>sel_id = ''sha1=abc'', sel_local_path = None, sel_digests = [''sha1=abc''],
      sel_bindings = [EnvironmentBinding ''APP_HOME'' (), OtherBinding],
      sel_dependencies =
        [\<lparr>dep_interface = ''lib'', dep_bindings = [EnvironmentBinding ''LIB_PATH'' ()]\<rparr>,
         \<lparr>dep_interface = ''python'', dep_bindings = [EnvironmentBinding ''PYTHONPATH'' ()]\<rparr>]\<rparr>"

text \<open>A selection whose \<^verbatim>\<open>local_path\<close> is the empty string.\<close>

definition example_blank :: "unit selection" where
  "example_blank =
     \<lparr>sel_id = ''sha1=abc'', sel_local_path = Some [], sel_digests = [''sha1=abc''],
      sel_bindings = [], sel_dependencies = []\<rparr>"

definition example_command :: "unit command" where
  "example_command =
     \<lparr>cmd_path = Some ''bin/run'',
      cmd_requires = [\<lparr>dep_interface = ''lib'', dep_bindings = [EnvironmentBinding ''LIB_PATH'' ()]\<rparr>]\<rparr>"

definition example_selections :: "unit selections" where
  "example_selections =
     \<lparr>sels_selections = [(''app'', example_app), (''lib'', example_lib), (''python'', example_python)],
      sels_interface = ''app'',
      sels_command = example_command\<rparr>"

text \<open>The same resolution with an absolute command path, and with no command path.\<close>

definition example_absolute :: "unit selections" where
  "example_absolute =
     example_selections\<lparr>sels_command := \<lparr>cmd_path = Some ''/bin/run'', cmd_requires = []\<rparr>\<rparr>"

definition example_library :: "unit selections" where
  "example_library =
     example_selections\<lparr>sels_command := \<lparr>cmd_path = None, cmd_requires = []\<rparr>\<rparr>"

section \<open>The example's surroundings\<close>

lemma example_world_simps [simp]:
  "lookup_any example_world digests
     = (if digests = [''sha1=abc''] then Some ''/store/abc'' else None)"
  "path_exists example_world p = (p = ''/store/abc/bin/run'')"
  "get_value example_world = example_get_value"
  "execl example_world prog_path prog_args env = None"
  "program example_world prog_path prog_args env = Some (''hello'', 0)"
  "log_text example_world msg = []"
  "format_exc example_world e = ''Traceback (most recent call last)''"
  by (simp_all add: example_world_def)

lemma example_host_world_simps [simp]:
  "lookup_any example_host_world digests
     = (if digests = [''sha1=abc''] then Some ''/store/abc'' else None)"
  "path_exists example_host_world p = (p = ''/bin/sh'')"
  "get_value example_host_world = example_get_value"
  "execl example_host_world prog_path prog_args env = None"
  "log_text example_host_world msg = []"
  by (simp_all add: example_host_world_def example_world_def)

lemma example_hung_world_simps [simp]:
  "lookup_any example_hung_world digests
     = (if digests = [''sha1=abc''] then Some ''/store/abc'' else None)"
  "path_exists example_hung_world p = (p = ''/store/abc/bin/run'')"
  "get_value example_hung_world = example_get_value"
  "execl example_hung_world prog_path prog_args env = None"
  "program example_hung_world prog_path prog_args env = None"
  "log_text example_hung_world msg = []"
  by (simp_all add: example_hung_world_def example_world_def)

section \<open>Sequencing of actions\<close>

lemma bind_apply:
  "bind m f s = (case m s of (Inl e, s') \<Rightarrow> (Inl e, s') | (Inr x, s') \<Rightarrow> f x s')"
  by (simp add: bind_def)

lemma return_bind [simp]: "bind (return x) f = f x"
  by (simp add: bind_def return_def)

lemma raise_bind [simp]: "bind (raise e) f = raise e"
  by (simp add: bind_def raise_def)

lemma bind_return [simp]: "bind m return = m"
  by (rule ext) (simp add: bind_def return_def split: prod.split sum.split)

lemma bind_assoc: "bind (bind m f) g = bind m (\<lambda>x. bind (f x) g)"
  by (rule ext) (simp add: bind_def split: prod.split sum.split)

lemma bind_Inr: "m s = (Inr x, s') \<Longrightarrow> bind m f s = f x s'"
  by (simp add: bind_def)

lemma bind_Inl: "m s = (Inl e, s') \<Longrightarrow> bind m f s = (Inl e, s')"
  by (simp add: bind_def)

section \<open>The binding pass tests no file\<close>

lemma replay_Nil [simp]: "replay env [] = env"
  by (simp add: replay_def)

lemma replay_append: "replay env (xs @ ys) = replay (replay env xs) ys"
  by (simp add: replay_def)

lemma replay_Cons: "replay env (ev # evs) = replay (apply_event env ev) evs"
  by (simp add: replay_def)

lemma quietI:
  assumes "\<And>s. events (snd (m s)) = events s @ evs s"
    and "\<And>s. environ (snd (m s)) = replay (environ s) (evs s)"
    and "\<And>s. \<not> list_ex is_exists_check (evs s)"
  shows "quiet m"
  unfolding quiet_def using assms by blast

lemma quiet_return [simp]: "quiet (return x)"
  by (rule quietI [where evs = "\<lambda>s. []"]) (simp_all add: return_def)

lemma quiet_raise [simp]: "quiet (raise e)"
  by (rule quietI [where evs = "\<lambda>s. []"]) (simp_all add: raise_def)

lemma quiet_emit: "quiet (emit (StoreLookup digests))"
  by (rule quietI [where evs = "\<lambda>s. [StoreLookup digests]"])
     (simp_all add: emit_def replay_Cons)

lemma quiet_bind:
  assumes m: "quiet m" and f: "\<And>x. quiet (f x)"
  shows "quiet (bind m f)"
  unfolding quiet_def
proof
  fix s
  obtain r s' where ms: "m s = (r, s')" by (cases "m s")
  from m obtain evs where evs: "events s' = events s @ evs"
      "environ s' = replay (environ s) evs" "\<not> list_ex is_exists_check evs"
    unfolding quiet_def using ms by (metis snd_conv)
  show "\<exists>evs. events (snd (bind m f s)) = events s @ evs
          \<and> environ (snd (bind m f s)) = replay (environ s) evs
          \<and> \<not> list_ex is_exists_check evs"
  proof (cases r)
    case (Inl e)
    with ms evs show ?thesis by (auto simp: bind_def)
  next
    case (Inr x)
    from f [of x] obtain evs' where
      evs': "events (snd (f x s')) = events s' @ evs'"
        "environ (snd (f x s')) = replay (environ s') evs'" "\<not> list_ex is_exists_check evs'"
      unfolding quiet_def by blast
    have "events (snd (bind m f s)) = events s @ (evs @ evs')"
      using ms Inr evs evs' by (simp add: bind_def)
    moreover have "environ (snd (bind m f s)) = replay (environ s) (evs @ evs')"
      using ms Inr evs evs' by (simp add: bind_def replay_append)
    moreover have "\<not> list_ex is_exists_check (evs @ evs')"
      using evs evs' by (auto simp: list_ex_iff)
    ultimately show ?thesis by blast
  qed
qed

lemma quiet_filter:
  "quiet m \<Longrightarrow> filter is_exists_check (events (snd (m s))) = filter is_exists_check (events s)"
proof -
  assume "quiet m"
  then obtain evs where "events (snd (m s)) = events s @ evs" "\<not> list_ex is_exists_check evs"
    unfolding quiet_def by blast
  then show ?thesis by (auto simp: list_ex_iff filter_empty_conv)
qed

lemma quiet_mono: "quiet m \<Longrightarrow> set (events s) \<subseteq> set (events (snd (m s)))"
  unfolding quiet_def by (metis Un_upper1 set_append)

lemma quiet_do_env_binding: "quiet (do_env_binding w name rule path)"
  by (rule quietI [where evs = "\<lambda>s. [SetEnv name (get_value w name rule path (environ s name)),
        Info (name @ ''='' @ get_value w name rule path (environ s name))]"])
     (simp_all add: do_env_binding_def Let_def replay_Cons)

lemma quiet_store_lookup: "quiet (store_lookup w digests)"
  unfolding store_lookup_def
  by (intro quiet_bind quiet_emit) (simp_all split: option.split)

lemma quiet_get_implementation_path: "quiet (get_implementation_path w impl)"
  by (simp add: get_implementation_path_def quiet_store_lookup split: option.split)

lemma quiet_do_bindings: "quiet (do_bindings w impl bs)"
proof (induction bs)
  case Nil
  show ?case by simp
next
  case (Cons b bs)
  have "quiet (case b of EnvironmentBinding name rule \<Rightarrow>
                 bind (get_implementation_path w impl) (do_env_binding w name rule)
               | OtherBinding \<Rightarrow> return ())"
    by (cases b) (simp_all add: quiet_bind quiet_get_implementation_path quiet_do_env_binding)
  with Cons show ?case by (simp add: quiet_bind)
qed

lemma quiet_lookup_sel: "quiet (lookup_sel sels key)"
  by (simp add: lookup_sel_def split: option.split)

lemma quiet_do_dependencies: "quiet (do_dependencies w sels deps)"
proof (induction deps)
  case Nil
  show ?case by simp
next
  case (Cons dep deps)
  show ?case
    unfolding do_dependencies.simps
    by (intro quiet_bind quiet_lookup_sel) (simp_all add: quiet_do_bindings Cons)
qed

lemma quiet_do_selections: "quiet (do_selections w sels xs)"
proof (induction xs)
  case Nil
  show ?case by simp
next
  case (Cons x xs)
  show ?case
    unfolding do_selections.simps
    by (intro quiet_bind quiet_do_bindings quiet_do_dependencies Cons)
qed

lemma quiet_apply_bindings: "quiet (apply_bindings w selections)"
  unfolding apply_bindings_def Let_def
  by (intro quiet_bind quiet_do_selections quiet_lookup_sel quiet_do_dependencies quiet_return)

lemma apply_bindings_root:
  assumes "apply_bindings w selections s = (Inr r, s')"
  shows "map_of (sels_selections selections) (sels_interface selections) = Some r"
  using assms
  by (auto simp: apply_bindings_def Let_def bind_def lookup_sel_def return_def raise_def
           split: prod.splits sum.splits option.splits)

section \<open>Path resolution\<close>

lemma store_lookup_apply:
  "store_lookup w digests s =
     ((case lookup_any w digests of None \<Rightarrow> Inl (StoreLookupError digests) | Some q \<Rightarrow> Inr q),
      s\<lparr>events := events s @ [StoreLookup digests]\<rparr>)"
  by (simp add: store_lookup_def bind_def emit_def raise_def return_def split: option.split)

text \<open>
  Claim C7, as amended. Path resolution returns the selection's \<^verbatim>\<open>local_path\<close>, and
  leaves the process as it was (no lookup in the store), whenever \<^verbatim>\<open>local_path\<close> is
  present and not the empty string. When \<^verbatim>\<open>local_path\<close> is \<^verbatim>\<open>None\<close> or the empty
  string, the store is asked for the selection's digests: the result is the store's
  path, or \<^verbatim>\<open>StoreLookupError\<close> when the store has none.
\<close>

theorem local_path_wins:
  "(sel_local_path impl = Some p \<and> p \<noteq> [] \<longrightarrow>
      get_implementation_path w impl s = (Inr p, s))
   \<and> (sel_local_path impl = None \<or> sel_local_path impl = Some [] \<longrightarrow>
      get_implementation_path w impl s =
        ((case lookup_any w (sel_digests impl) of
            None \<Rightarrow> Inl (StoreLookupError (sel_digests impl))
          | Some q \<Rightarrow> Inr q),
         s\<lparr>events := events s @ [StoreLookup (sel_digests impl)]\<rparr>))"
  by (auto simp: get_implementation_path_def store_lookup_apply return_def)

theorem local_path_wins_witness:
  "sel_local_path example_lib = Some ''/home/dev/lib'' \<and> ''/home/dev/lib'' \<noteq> []
   \<and> get_implementation_path example_world example_lib example_process
       = (Inr ''/home/dev/lib'', example_process)
   \<and> sel_local_path example_app = None
   \<and> get_implementation_path example_world example_app example_process
       = (Inr ''/store/abc'', example_process\<lparr>events := [StoreLookup [''sha1=abc'']]\<rparr>)"
proof -
  have lib: "sel_local_path example_lib = Some ''/home/dev/lib''"
    by (simp add: example_lib_def)
  have app: "sel_local_path example_app = None" "sel_digests example_app = [''sha1=abc'']"
    by (simp_all add: example_app_def)
  have ev: "events example_process = []"
    by (simp add: example_process_def)
  from local_path_wins [of example_lib "''/home/dev/lib''" example_world example_process] lib
  have "get_implementation_path example_world example_lib example_process
          = (Inr ''/home/dev/lib'', example_process)"
    by simp
  moreover
  from local_path_wins [of example_app "[]" example_world example_process] app ev
  have "get_implementation_path example_world example_app example_process
          = (Inr ''/store/abc'', example_process\<lparr>events := [StoreLookup [''sha1=abc'']]\<rparr>)"
    by simp
  ultimately show ?thesis using lib app by simp
qed

text \<open>
  Claim C7 as stated fails for a \<^verbatim>\<open>local_path\<close> that is present and empty: in
  \<^verbatim>\<open>impl.local_path or lookup_any(impl.digests)\<close> the empty string is false, so the
  store is asked and its path is returned instead of \<^verbatim>\<open>local_path\<close>.
\<close>

theorem empty_local_path_counterexample:
  "sel_local_path example_blank = Some []
   \<and> get_implementation_path example_world example_blank example_process
       = (Inr ''/store/abc'', example_process\<lparr>events := [StoreLookup [''sha1=abc'']]\<rparr>)
   \<and> get_implementation_path example_world example_blank example_process
       \<noteq> (Inr [], example_process)"
  by (simp add: get_implementation_path_def store_lookup_apply example_blank_def
        example_process_def)

section \<open>Planning\<close>

lemma startswith_slash: "startswith c ''/'' \<longleftrightarrow> (\<exists>r. c = CHR ''/'' # r)"
  by (cases c) (auto simp: startswith_def)

lemma check_exists_apply:
  "check_exists w root_sel (m, p) s =
     ((if path_exists w p then Inr p else Inl (MissingProgramError p (sel_id root_sel) m)),
      s\<lparr>events := events s @ [ExistsCheck p]\<rparr>)"
  by (simp add: check_exists_def bind_def emit_def raise_def return_def)

lemma check_command_path_relative:
  "(\<And>c. command_path = Some c \<Longrightarrow> \<not> startswith c ''/'') \<Longrightarrow>
     check_command_path command_path = return ()"
  by (cases command_path) (simp_all add: check_command_path_def)

lemma plan_apply:
  "resolve_program w root_sel (cmd_path command) main s = (Inr (m, p), s') \<Longrightarrow>
     plan w root_sel command prog_args main wrapper s =
       ((if path_exists w p then Inr (apply_wrapper wrapper p prog_args)
         else Inl (MissingProgramError p (sel_id root_sel) m)),
        s'\<lparr>events := events s' @ [ExistsCheck p]\<rparr>)"
  by (simp add: plan_def bind_def check_exists_apply return_def)

lemma plan_raises:
  "resolve_program w root_sel (cmd_path command) main s = (Inl e, s') \<Longrightarrow>
     plan w root_sel command prog_args main wrapper s = (Inl e, s')"
  by (simp add: plan_def bind_def)

lemma execute_when_plan_raises:
  assumes root: "map_of (sels_selections selections) (sels_interface selections) = Some root_sel"
    and p: "\<And>t. plan w root_sel (sels_command selections) prog_args main wrapper t = (Inl err, t)"
  shows "execute_selections w selections prog_args dry_run main wrapper s
           = (case apply_bindings w selections s of
                (Inl e, s') \<Rightarrow> (Inl e, s')
              | (Inr r, s') \<Rightarrow> (Inl err, s'))
      \<and> filter is_exists_check
            (events (snd (execute_selections w selections prog_args dry_run main wrapper s)))
           = filter is_exists_check (events s)"
proof -
  have e: "execute_selections w selections prog_args dry_run main wrapper s
           = (case apply_bindings w selections s of
                (Inl e, s') \<Rightarrow> (Inl e, s')
              | (Inr r, s') \<Rightarrow> (Inl err, s'))"
  proof (cases "apply_bindings w selections s")
    case (Pair r s')
    show ?thesis
    proof (cases r)
      case (Inl e)
      with Pair show ?thesis by (simp add: execute_selections_def bind_def)
    next
      case (Inr x)
      with Pair have "x = root_sel"
        using apply_bindings_root [of w selections s x s'] root by simp
      with Pair Inr p show ?thesis by (simp add: execute_selections_def bind_def)
    qed
  qed
  have "snd (execute_selections w selections prog_args dry_run main wrapper s)
          = snd (apply_bindings w selections s)"
    unfolding e by (simp split: prod.split sum.split)
  then have "filter is_exists_check
            (events (snd (execute_selections w selections prog_args dry_run main wrapper s)))
           = filter is_exists_check (events s)"
    using quiet_filter [OF quiet_apply_bindings, of w selections s] by simp
  with e show ?thesis by simp
qed

subsection \<open>The example evaluated\<close>

lemmas example_defs =
  example_selections_def example_app_def example_lib_def example_python_def
  example_command_def example_process_def example_get_value_def

lemmas action_defs =
  apply_bindings_def lookup_sel_def get_implementation_path_def store_lookup_apply
  do_env_binding_def bind_def return_def raise_def emit_def startswith_def Let_def

lemmas launch_defs =
  execute_selections_def plan_def resolve_program_def check_command_path_def effective_main_def
  check_exists_def apply_wrapper_def launch_def path_join_def dirname_def endswith_def py_or_def

lemma example_bindings_succeed:
  "fst (apply_bindings example_world example_selections example_process) = Inr example_app"
  by (simp add: example_defs action_defs)

lemma example_absolute_bindings:
  "fst (apply_bindings example_world example_absolute example_process) = Inr example_app"
  by (simp add: example_absolute_def example_defs action_defs)

lemma example_library_bindings:
  "fst (apply_bindings example_world example_library example_process) = Inr example_app"
  by (simp add: example_library_def example_defs action_defs)

lemma example_app_path:
  "get_implementation_path example_world example_app example_process
     = (Inr ''/store/abc'', example_process\<lparr>events := [StoreLookup [''sha1=abc'']]\<rparr>)"
  by (simp add: get_implementation_path_def store_lookup_apply example_app_def example_process_def)

lemma example_app_not_package: "\<not> startswith (sel_id example_app) ''package:''"
  by (simp add: example_app_def startswith_def)

lemma example_app_resolves:
  "resolve_program example_world example_app (cmd_path example_command) None example_process
     = (Inr (''bin/run'', ''/store/abc/bin/run''),
        example_process\<lparr>events := [StoreLookup [''sha1=abc'']]\<rparr>)"
  using example_app_not_package example_app_path
  by (simp add: resolve_program_def check_command_path_def effective_main_def example_command_def
        bind_def return_def path_join_def startswith_def endswith_def)

subsection \<open>A main override anchored at the implementation's root\<close>

text \<open>
  What lines 136, 137 and 142 do for a \<^verbatim>\<open>main\<close> that begins with \<^verbatim>\<open>/\<close>, when the root
  selection is not a host package, the command path, if there is one, is not absolute,
  and the path resolver returns \<^verbatim>\<open>root\<close>: the effective main is \<^verbatim>\<open>main\<close> without its first
  character, and the program's path is \<^verbatim>\<open>os.path.join(root, main[1:])\<close>, whatever the
  command path is. When \<^verbatim>\<open>main[1:]\<close> does not begin with \<^verbatim>\<open>/\<close> itself, that path is
  \<^verbatim>\<open>root\<close>, a separator unless \<^verbatim>\<open>root\<close> is empty or ends with one, and \<^verbatim>\<open>main[1:]\<close>.
\<close>

lemma anchored_main_program:
  assumes "\<not> startswith (sel_id root_sel) ''package:''"
    and "\<And>c. cmd_path command = Some c \<Longrightarrow> \<not> startswith c ''/''"
    and "get_implementation_path w root_sel s = (Inr root, s')"
  shows "resolve_program w root_sel (cmd_path command) (Some (CHR ''/'' # rest)) s
           = (Inr (rest, path_join root rest), s')
      \<and> plan w root_sel command prog_args (Some (CHR ''/'' # rest)) wrapper s
           = ((if path_exists w (path_join root rest)
               then Inr (apply_wrapper wrapper (path_join root rest) prog_args)
               else Inl (MissingProgramError (path_join root rest) (sel_id root_sel) rest)),
              s'\<lparr>events := events s' @ [ExistsCheck (path_join root rest)]\<rparr>)"
proof -
  have main: "effective_main (cmd_path command) (Some (CHR ''/'' # rest)) = Some rest"
    by (simp add: effective_main_def startswith_def)
  have "check_command_path (cmd_path command) = return ()"
    using assms(2) by (rule check_command_path_relative)
  then have r: "resolve_program w root_sel (cmd_path command) (Some (CHR ''/'' # rest)) s
           = (Inr (rest, path_join root rest), s')"
    using assms(1,3) main by (simp add: resolve_program_def bind_Inr return_def)
  from plan_apply [OF r] r show ?thesis by simp
qed

lemma path_join_relative:
  "\<not> startswith rest ''/'' \<Longrightarrow>
     path_join root rest
       = root @ (if root = [] \<or> endswith root ''/'' then [] else ''/'') @ rest"
  by (simp add: path_join_def)

lemma path_join_absolute: "startswith rest ''/'' \<Longrightarrow> path_join root rest = rest"
  by (simp add: path_join_def)

text \<open>
  Claim C1. The claim is that a \<^verbatim>\<open>main\<close> beginning with \<^verbatim>\<open>/\<close> is resolved against the
  implementation's root, as the comment of line 137 says (a path relative to the
  package root). The module does not do so for a \<^verbatim>\<open>main\<close> that begins with two slashes.
  For the application stored at \<^verbatim>\<open>/store/abc\<close> and \<^verbatim>\<open>main = '//bin/sh'\<close>, line 137 leaves
  \<^verbatim>\<open>/bin/sh\<close>, \<^verbatim>\<open>os.path.join\<close> of line 142 drops the root for this absolute component,
  and the program's path is \<^verbatim>\<open>/bin/sh\<close>, which does not lie under \<^verbatim>\<open>/store/abc\<close>; where that
  file exists, it is what \<^verbatim>\<open>execute_selections\<close> runs.
\<close>

theorem double_slash_main_leaves_root:
  "\<not> startswith (sel_id example_app) ''package:''
   \<and> cmd_path example_command = Some ''bin/run''
   \<and> fst (get_implementation_path example_host_world example_app example_process)
       = Inr ''/store/abc''
   \<and> fst (resolve_program example_host_world example_app (cmd_path example_command)
        (Some ''//bin/sh'') example_process)
       = Inr (''/bin/sh'', ''/bin/sh'')
   \<and> \<not> startswith ''/bin/sh'' ''/store/abc''
   \<and> fst (execute_selections example_host_world example_selections [''-c'', ''id''] False
        (Some ''//bin/sh'') None example_process)
       = Inr (Replaced ''/bin/sh'' [''-c'', ''id''])"
proof -
  have p: "get_implementation_path example_host_world example_app example_process
     = (Inr ''/store/abc'', example_process\<lparr>events := [StoreLookup [''sha1=abc'']]\<rparr>)"
    by (simp add: get_implementation_path_def store_lookup_apply example_app_def
          example_process_def)
  have c: "\<not> startswith c ''/''" if "cmd_path example_command = Some c" for c
    using that by (auto simp: example_command_def startswith_def)
  have j: "path_join ''/store/abc'' ''/bin/sh'' = ''/bin/sh''"
    by (rule path_join_absolute) (simp add: startswith_def)
  from anchored_main_program [where rest = "''/bin/sh''" and prog_args = "[]" and wrapper = None,
      OF example_app_not_package c p] j
  have r: "fst (resolve_program example_host_world example_app (cmd_path example_command)
        (Some ''//bin/sh'') example_process) = Inr (''/bin/sh'', ''/bin/sh'')"
    by simp
  have x: "fst (execute_selections example_host_world example_selections [''-c'', ''id''] False
        (Some ''//bin/sh'') None example_process) = Inr (Replaced ''/bin/sh'' [''-c'', ''id''])"
    by (simp add: launch_defs example_defs action_defs)
  have "cmd_path example_command = Some ''bin/run''"
    by (simp add: example_command_def)
  moreover have "\<not> startswith ''/bin/sh'' ''/store/abc''"
    by (simp add: startswith_def)
  ultimately show ?thesis using example_app_not_package p r x by simp
qed

subsection \<open>A wrapper\<close>

text \<open>
  Claim C3. With a wrapper that is a non-empty string, the program becomes
  \<^verbatim>\<open>/bin/sh\<close> and the arguments become \<^verbatim>\<open>-c\<close>, the wrapper followed by a space and
  \<^verbatim>\<open>"$@"\<close>, \<^verbatim>\<open>-\<close>, the resolved program, and then the original arguments in their
  order. This is what \<^const>\<open>plan\<close> returns when the program was resolved and exists.
\<close>

theorem wrapper_runs_shell:
  assumes "wr \<noteq> []"
  shows "apply_wrapper (Some wr) prog_path prog_args
           = (''/bin/sh'',
              [''-c'', wr @ [CHR '' '', CHR 0x22, CHR ''$'', CHR ''@'', CHR 0x22], ''-'', prog_path]
                @ prog_args)
      \<and> (resolve_program w root_sel (cmd_path command) main s = (Inr (m, prog_path), s')
           \<and> path_exists w prog_path \<longrightarrow>
         plan w root_sel command prog_args main (Some wr) s
           = (Inr (''/bin/sh'',
                   [''-c'', wr @ [CHR '' '', CHR 0x22, CHR ''$'', CHR ''@'', CHR 0x22], ''-'', prog_path]
                     @ prog_args),
              s'\<lparr>events := events s' @ [ExistsCheck prog_path]\<rparr>))"
  using assms by (auto simp: apply_wrapper_def plan_apply)

theorem wrapper_runs_shell_witness:
  "''strace -f'' \<noteq> []
   \<and> resolve_program example_world example_app (cmd_path example_command) None example_process
       = (Inr (''bin/run'', ''/store/abc/bin/run''),
          example_process\<lparr>events := [StoreLookup [''sha1=abc'']]\<rparr>)
   \<and> path_exists example_world ''/store/abc/bin/run''
   \<and> fst (plan example_world example_app example_command [''a'', ''b''] None (Some ''strace -f'')
        example_process)
       = Inr (''/bin/sh'',
              [''-c'', ''strace -f'' @ [CHR '' '', CHR 0x22, CHR ''$'', CHR ''@'', CHR 0x22], ''-'',
               ''/store/abc/bin/run'', ''a'', ''b''])"
proof -
  have h: "''strace -f'' \<noteq> []" by simp
  have e: "path_exists example_world ''/store/abc/bin/run''" by simp
  from wrapper_runs_shell [OF h, of "''/store/abc/bin/run''" "[''a'', ''b'']" example_world
      example_app example_command None example_process "''bin/run''"
      "example_process\<lparr>events := [StoreLookup [''sha1=abc'']]\<rparr>"]
    example_app_resolves e
  have "fst (plan example_world example_app example_command [''a'', ''b''] None (Some ''strace -f'')
        example_process)
       = Inr (''/bin/sh'',
              [''-c'', ''strace -f'' @ [CHR '' '', CHR 0x22, CHR ''$'', CHR ''@'', CHR 0x22], ''-'',
               ''/store/abc/bin/run'', ''a'', ''b''])"
    by simp
  with h e example_app_resolves show ?thesis by blast
qed

subsection \<open>An absolute command path\<close>

text \<open>
  Claim C4. The root selection is not a host package and \<^verbatim>\<open>command.path\<close> starts with
  \<^verbatim>\<open>/\<close>. Then, for every \<^verbatim>\<open>main\<close> and \<^verbatim>\<open>wrapper\<close>, planning raises
  \<^verbatim>\<open>InvalidCommandPathError\<close> and leaves the process untouched; \<^verbatim>\<open>execute_selections\<close>
  raises it as soon as the binding pass is through, and by then no test of a file's
  existence has run.
\<close>

theorem absolute_command_path_rejected:
  assumes "map_of (sels_selections selections) (sels_interface selections) = Some root_sel"
    and "\<not> startswith (sel_id root_sel) ''package:''"
    and "cmd_path (sels_command selections) = Some c"
    and "startswith c ''/''"
  shows "plan w root_sel (sels_command selections) prog_args main wrapper s
           = (Inl (InvalidCommandPathError c), s)
      \<and> execute_selections w selections prog_args dry_run main wrapper s
           = (case apply_bindings w selections s of
                (Inl e, s') \<Rightarrow> (Inl e, s')
              | (Inr r, s') \<Rightarrow> (Inl (InvalidCommandPathError c), s'))
      \<and> filter is_exists_check
            (events (snd (execute_selections w selections prog_args dry_run main wrapper s)))
           = filter is_exists_check (events s)"
proof -
  have c: "c \<noteq> []" using assms(4) by (auto simp: startswith_slash)
  have p: "plan w root_sel (sels_command selections) prog_args main wrapper t
             = (Inl (InvalidCommandPathError c), t)" for t
    using assms(2,3,4) c
    by (simp add: plan_def resolve_program_def check_command_path_def bind_def raise_def)
  from execute_when_plan_raises [OF assms(1), of w prog_args main wrapper, OF p] p [of s]
  show ?thesis by blast
qed

theorem absolute_command_path_rejected_witness:
  "map_of (sels_selections example_absolute) (sels_interface example_absolute) = Some example_app
   \<and> \<not> startswith (sel_id example_app) ''package:''
   \<and> cmd_path (sels_command example_absolute) = Some ''/bin/run''
   \<and> startswith ''/bin/run'' ''/''
   \<and> plan example_world example_app (sels_command example_absolute) [''a''] (Some ''tool'')
        (Some ''strace -f'') example_process
       = (Inl (InvalidCommandPathError ''/bin/run''), example_process)
   \<and> fst (execute_selections example_world example_absolute [''a''] False (Some ''tool'')
        (Some ''strace -f'') example_process)
       = Inl (InvalidCommandPathError ''/bin/run'')
   \<and> filter is_exists_check (events (snd (execute_selections example_world example_absolute
        [''a''] False (Some ''tool'') (Some ''strace -f'') example_process))) = []"
proof -
  have h1: "map_of (sels_selections example_absolute) (sels_interface example_absolute)
              = Some example_app"
    by (simp add: example_absolute_def example_selections_def)
  have h2: "\<not> startswith (sel_id example_app) ''package:''"
    by (simp add: example_app_def startswith_def)
  have h3: "cmd_path (sels_command example_absolute) = Some ''/bin/run''"
    by (simp add: example_absolute_def)
  have h4: "startswith ''/bin/run'' ''/''"
    by (simp add: startswith_def)
  have ev: "events example_process = []"
    by (simp add: example_process_def)
  obtain r s' where a: "apply_bindings example_world example_absolute example_process = (r, s')"
    by (cases "apply_bindings example_world example_absolute example_process")
  with example_absolute_bindings have r: "r = Inr example_app" by simp
  note inst = absolute_command_path_rejected [OF h1 h2 h3 h4, of example_world "[''a'']"
    "Some ''tool''" "Some ''strace -f''" example_process False]
  from inst have c1: "plan example_world example_app (sels_command example_absolute) [''a'']
      (Some ''tool'') (Some ''strace -f'') example_process
       = (Inl (InvalidCommandPathError ''/bin/run''), example_process)"
    by blast
  from inst a r have c2: "fst (execute_selections example_world example_absolute [''a''] False
      (Some ''tool'') (Some ''strace -f'') example_process)
       = Inl (InvalidCommandPathError ''/bin/run'')"
    by simp
  from inst have "filter is_exists_check (events (snd (execute_selections example_world
      example_absolute [''a''] False (Some ''tool'') (Some ''strace -f'') example_process)))
       = filter is_exists_check (events example_process)"
    by blast
  then have c3: "filter is_exists_check (events (snd (execute_selections example_world
      example_absolute [''a''] False (Some ''tool'') (Some ''strace -f'') example_process))) = []"
    by (simp only: ev filter.simps)
  from h1 h2 h3 h4 c1 c2 c3 show ?thesis by blast
qed

subsection \<open>No command path and no main\<close>

text \<open>
  Claim C8. When \<^verbatim>\<open>command.path\<close> and \<^verbatim>\<open>main\<close> are both \<^verbatim>\<open>None\<close>, planning raises
  \<^verbatim>\<open>NotExecutableError\<close> and leaves the process untouched, whether the root is a host
  package or not; \<^verbatim>\<open>execute_selections\<close> raises it as soon as the binding pass is
  through, and by then no test of a file's existence has run.
\<close>

theorem no_main_not_executable:
  assumes "map_of (sels_selections selections) (sels_interface selections) = Some root_sel"
    and "cmd_path (sels_command selections) = None"
  shows "plan w root_sel (sels_command selections) prog_args None wrapper s
           = (Inl (NotExecutableError (sel_id root_sel)), s)
      \<and> execute_selections w selections prog_args dry_run None wrapper s
           = (case apply_bindings w selections s of
                (Inl e, s') \<Rightarrow> (Inl e, s')
              | (Inr r, s') \<Rightarrow> (Inl (NotExecutableError (sel_id root_sel)), s'))
      \<and> filter is_exists_check
            (events (snd (execute_selections w selections prog_args dry_run None wrapper s)))
           = filter is_exists_check (events s)"
proof -
  have p: "plan w root_sel (sels_command selections) prog_args None wrapper t
             = (Inl (NotExecutableError (sel_id root_sel)), t)" for t
    using assms(2)
    by (simp add: plan_def resolve_program_def check_command_path_def effective_main_def
          py_or_def bind_def raise_def return_def)
  from execute_when_plan_raises [OF assms(1), of w prog_args None wrapper, OF p] p [of s]
  show ?thesis by blast
qed

theorem no_main_not_executable_witness:
  "map_of (sels_selections example_library) (sels_interface example_library) = Some example_app
   \<and> cmd_path (sels_command example_library) = None
   \<and> plan example_world example_app (sels_command example_library) [''a''] None None
        example_process
       = (Inl (NotExecutableError ''sha1=abc''), example_process)
   \<and> fst (execute_selections example_world example_library [''a''] False None None
        example_process)
       = Inl (NotExecutableError ''sha1=abc'')
   \<and> filter is_exists_check (events (snd (execute_selections example_world example_library
        [''a''] False None None example_process))) = []"
proof -
  have h1: "map_of (sels_selections example_library) (sels_interface example_library)
              = Some example_app"
    by (simp add: example_library_def example_selections_def)
  have h2: "cmd_path (sels_command example_library) = None"
    by (simp add: example_library_def)
  have ev: "events example_process = []"
    by (simp add: example_process_def)
  have id: "sel_id example_app = ''sha1=abc''"
    by (simp add: example_app_def)
  obtain r s' where a: "apply_bindings example_world example_library example_process = (r, s')"
    by (cases "apply_bindings example_world example_library example_process")
  with example_library_bindings have r: "r = Inr example_app" by simp
  note inst = no_main_not_executable [OF h1 h2, of example_world "[''a'']" None
    example_process False]
  from inst id have c1: "plan example_world example_app (sels_command example_library) [''a'']
      None None example_process = (Inl (NotExecutableError ''sha1=abc''), example_process)"
    by simp
  from inst a r id have c2: "fst (execute_selections example_world example_library [''a''] False
      None None example_process) = Inl (NotExecutableError ''sha1=abc'')"
    by simp
  from inst have "filter is_exists_check (events (snd (execute_selections example_world
      example_library [''a''] False None None example_process)))
       = filter is_exists_check (events example_process)"
    by blast
  then have c3: "filter is_exists_check (events (snd (execute_selections example_world
      example_library [''a''] False None None example_process))) = []"
    by (simp only: ev filter.simps)
  from h1 h2 c1 c2 c3 show ?thesis by blast
qed

subsection \<open>A root from the host's package manager\<close>

text \<open>
  Claim C6, as amended. When the root selection's id starts with \<^verbatim>\<open>package:\<close>, the
  program's path is \<^verbatim>\<open>main\<close> itself when \<^verbatim>\<open>main\<close> is given and not the empty string, and
  \<^verbatim>\<open>command.path\<close> itself when \<^verbatim>\<open>main\<close> is \<^verbatim>\<open>None\<close> or empty and \<^verbatim>\<open>command.path\<close> is
  given. The process is left untouched: no path is resolved and nothing is joined.
\<close>

theorem package_root_literal:
  assumes "startswith (sel_id root_sel) ''package:''"
  shows "(main = Some m \<and> m \<noteq> [] \<longrightarrow>
            resolve_program w root_sel command_path main s = (Inr (m, m), s))
       \<and> ((main = None \<or> main = Some []) \<and> command_path = Some c \<longrightarrow>
            resolve_program w root_sel command_path main s = (Inr (c, c), s))"
  using assms by (auto simp: resolve_program_def py_or_def return_def)

theorem package_root_literal_witness:
  "startswith (sel_id example_python) ''package:''
   \<and> resolve_program example_world example_python (Some ''python'') (Some ''python2'')
        example_process
       = (Inr (''python2'', ''python2''), example_process)
   \<and> resolve_program example_world example_python (Some ''python'') None example_process
       = (Inr (''python'', ''python''), example_process)"
proof -
  have h: "startswith (sel_id example_python) ''package:''"
    by (simp add: example_python_def startswith_def)
  from package_root_literal [OF h, of "Some ''python2''" "''python2''" example_world
      "Some ''python''" example_process "''python''"]
  have c1: "resolve_program example_world example_python (Some ''python'') (Some ''python2'')
      example_process = (Inr (''python2'', ''python2''), example_process)"
    by simp
  from package_root_literal [OF h, of None "[]" example_world
      "Some ''python''" example_process "''python''"]
  have c2: "resolve_program example_world example_python (Some ''python'') None
      example_process = (Inr (''python'', ''python''), example_process)"
    by simp
  from h c1 c2 show ?thesis by blast
qed

text \<open>
  Claim C6 as stated fails for a \<^verbatim>\<open>main\<close> that is given and empty: \<^verbatim>\<open>main or command_path\<close>
  takes the empty string for false, and the program's path is \<^verbatim>\<open>command.path\<close>.
\<close>

theorem empty_main_counterexample:
  "startswith (sel_id example_python) ''package:''
   \<and> resolve_program example_world example_python (Some ''python'') (Some []) example_process
       = (Inr (''python'', ''python''), example_process)
   \<and> resolve_program example_world example_python (Some ''python'') (Some []) example_process
       \<noteq> (Inr ([], []), example_process)"
  by (simp add: resolve_program_def py_or_def return_def example_python_def startswith_def)

section \<open>Properties of the binding pass\<close>

subsection \<open>The pass is the walk of the specification\<close>

lemma spec_apply_tasks_append:
  "spec_apply_tasks w (xs @ ys) = bind (spec_apply_tasks w xs) (\<lambda>_. spec_apply_tasks w ys)"
  by (induction xs) (simp_all add: bind_assoc)

lemma do_bindings_tasks:
  "do_bindings w impl bs = spec_apply_tasks w (map (Pair impl) bs)"
proof (induction bs)
  case Nil
  show ?case by simp
next
  case (Cons b bs)
  then show ?case by (cases b) (simp_all add: spec_apply_task_def)
qed

lemma do_dependencies_tasks:
  "deps_known sels deps \<Longrightarrow>
     do_dependencies w sels deps = spec_apply_tasks w (spec_dependency_tasks sels deps)"
proof (induction deps)
  case Nil
  show ?case by (simp add: spec_dependency_tasks_def)
next
  case (Cons dep deps)
  from Cons.prems obtain dep_impl where
    known: "map_of sels (dep_interface dep) = Some dep_impl" and rest: "deps_known sels deps"
    by (auto simp: deps_known_def)
  have tasks: "spec_dependency_tasks sels (dep # deps)
      = (if startswith (sel_id dep_impl) ''package:'' then []
         else map (Pair dep_impl) (dep_bindings dep)) @ spec_dependency_tasks sels deps"
    using known by (simp add: spec_dependency_tasks_def)
  show ?case
    using known Cons.IH [OF rest]
    by (simp add: tasks lookup_sel_def spec_apply_tasks_append do_bindings_tasks)
qed

lemma do_selections_tasks:
  "list_all (\<lambda>sel. deps_known sels (sel_dependencies sel)) xs \<Longrightarrow>
     do_selections w sels xs = spec_apply_tasks w (concat (map (spec_selection_tasks sels) xs))"
proof (induction xs)
  case Nil
  show ?case by simp
next
  case (Cons x xs)
  then show ?case
    by (simp add: spec_selection_tasks_def spec_apply_tasks_append do_bindings_tasks
          do_dependencies_tasks bind_assoc)
qed

text \<open>
  Claim C5. In a resolution where every interface named by a dependency is a key and
  the root interface is a key, the binding pass of \<^verbatim>\<open>execute_selections\<close> is the list of
  applications the specification describes, carried out in order: for every selection
  in turn, its own bindings against its own resolved path, then each of its
  dependencies' bindings against the dependency's resolved path, none for a dependency
  whose selection's id starts with \<^verbatim>\<open>package:\<close>; after all selections, the same for
  the requirements of the root command. Both stop at the first application that
  raises, with the same error and the same process.
\<close>

theorem binding_pass_follows_walk:
  assumes "complete selections"
    and "map_of (sels_selections selections) (sels_interface selections) = Some root_sel"
  shows "apply_bindings w selections
           = bind (spec_apply_tasks w (spec_binding_tasks selections)) (\<lambda>_. return root_sel)"
proof -
  let ?sels = "sels_selections selections"
  have a: "list_all (\<lambda>sel. deps_known ?sels (sel_dependencies sel)) (map snd ?sels)"
    using assms(1) by (simp add: complete_def list_all_iff)
  have b: "deps_known ?sels (cmd_requires (sels_command selections))"
    using assms(1) by (simp add: complete_def)
  show ?thesis
    using assms(2)
    by (simp add: apply_bindings_def Let_def lookup_sel_def spec_binding_tasks_def
          spec_apply_tasks_append do_selections_tasks [OF a] do_dependencies_tasks [OF b]
          bind_assoc)
qed

theorem binding_pass_follows_walk_witness:
  "complete example_selections
   \<and> map_of (sels_selections example_selections) (sels_interface example_selections)
       = Some example_app
   \<and> map (\<lambda>task. (sel_id (fst task), snd task)) (spec_binding_tasks example_selections)
       = [(''sha1=abc'', EnvironmentBinding ''APP_HOME'' ()), (''sha1=abc'', OtherBinding),
          (''/home/dev/lib'', EnvironmentBinding ''LIB_PATH'' ()),
          (''package:deb:python'', EnvironmentBinding ''PYTHONHOME'' ()),
          (''/home/dev/lib'', EnvironmentBinding ''LIB_PATH'' ())]
   \<and> fst (apply_bindings example_world example_selections example_process) = Inr example_app
   \<and> events (snd (apply_bindings example_world example_selections example_process))
       = [StoreLookup [''sha1=abc''], SetEnv ''APP_HOME'' ''/store/abc'',
          Info ''APP_HOME=/store/abc'', SetEnv ''LIB_PATH'' ''/home/dev/lib'',
          Info ''LIB_PATH=/home/dev/lib'', SetEnv ''PYTHONHOME'' ''/usr'',
          Info ''PYTHONHOME=/usr'', SetEnv ''LIB_PATH'' ''/home/dev/lib:/home/dev/lib'',
          Info ''LIB_PATH=/home/dev/lib:/home/dev/lib'']"
proof -
  have h1: "complete example_selections"
    by (simp add: complete_def deps_known_def example_defs)
  have h2: "map_of (sels_selections example_selections) (sels_interface example_selections)
       = Some example_app"
    by (simp add: example_selections_def)
  have tasks: "spec_binding_tasks example_selections
       = [(example_app, EnvironmentBinding ''APP_HOME'' ()), (example_app, OtherBinding),
          (example_lib, EnvironmentBinding ''LIB_PATH'' ()),
          (example_python, EnvironmentBinding ''PYTHONHOME'' ()),
          (example_lib, EnvironmentBinding ''LIB_PATH'' ())]"
    by (simp add: spec_binding_tasks_def spec_selection_tasks_def spec_dependency_tasks_def
          example_defs startswith_def)
  have ids: "sel_id example_app = ''sha1=abc''" "sel_id example_lib = ''/home/dev/lib''"
    "sel_id example_python = ''package:deb:python''"
    by (simp_all add: example_defs)
  have run: "spec_apply_tasks example_world (spec_binding_tasks example_selections) example_process
       = (Inr (), \<lparr>environ = (\<lambda>name. None)(''APP_HOME'' := Some ''/store/abc'',
                       ''LIB_PATH'' := Some ''/home/dev/lib'', ''PYTHONHOME'' := Some ''/usr'',
                       ''LIB_PATH'' := Some ''/home/dev/lib:/home/dev/lib''),
             events = [StoreLookup [''sha1=abc''], SetEnv ''APP_HOME'' ''/store/abc'',
          Info ''APP_HOME=/store/abc'', SetEnv ''LIB_PATH'' ''/home/dev/lib'',
          Info ''LIB_PATH=/home/dev/lib'', SetEnv ''PYTHONHOME'' ''/usr'',
          Info ''PYTHONHOME=/usr'', SetEnv ''LIB_PATH'' ''/home/dev/lib:/home/dev/lib'',
          Info ''LIB_PATH=/home/dev/lib:/home/dev/lib'']\<rparr>)"
    unfolding tasks
    by (simp add: spec_apply_task_def example_defs action_defs)
  from binding_pass_follows_walk [OF h1 h2, of example_world] run
  have "fst (apply_bindings example_world example_selections example_process) = Inr example_app"
    and "events (snd (apply_bindings example_world example_selections example_process))
       = [StoreLookup [''sha1=abc''], SetEnv ''APP_HOME'' ''/store/abc'',
          Info ''APP_HOME=/store/abc'', SetEnv ''LIB_PATH'' ''/home/dev/lib'',
          Info ''LIB_PATH=/home/dev/lib'', SetEnv ''PYTHONHOME'' ''/usr'',
          Info ''PYTHONHOME=/usr'', SetEnv ''LIB_PATH'' ''/home/dev/lib:/home/dev/lib'',
          Info ''LIB_PATH=/home/dev/lib:/home/dev/lib'']"
    by (simp_all add: bind_def return_def)
  with h1 h2 tasks ids show ?thesis by simp
qed

subsection \<open>A selection's own bindings\<close>

lemma path_state_independent:
  "fst (get_implementation_path w impl s) = fst (get_implementation_path w impl t)"
  by (simp add: get_implementation_path_def store_lookup_apply return_def split: option.split)

lemma bind_succeeds:
  "bind m f s = (Inr y, s') \<Longrightarrow> \<exists>x s1. m s = (Inr x, s1) \<and> f x s1 = (Inr y, s')"
  by (auto simp: bind_def split: prod.splits sum.splits)

lemma quiet_events:
  "quiet m \<Longrightarrow> m s = (r, s') \<Longrightarrow>
     \<exists>evs. events s' = events s @ evs \<and> environ s' = replay (environ s) evs"
  unfolding quiet_def by (metis snd_conv)

lemma replay_set: "SetEnv name v \<in> set evs \<Longrightarrow> replay env evs name \<noteq> None"
proof (induction evs rule: rev_induct)
  case Nil
  then show ?case by simp
next
  case (snoc x xs)
  then show ?case by (cases x) (auto simp: replay_def)
qed

lemma do_bindings_applies:
  assumes "do_bindings w impl bs s = (Inr (), s')"
    and "EnvironmentBinding name rule \<in> set bs"
  shows "\<exists>pre post path.
           events s' = events s @ pre
             @ SetEnv name (get_value w name rule path (replay (environ s) pre name)) # post
         \<and> fst (get_implementation_path w impl s) = Inr path"
  using assms
proof (induction bs arbitrary: s)
  case Nil
  then show ?case by simp
next
  case (Cons b bs)
  let ?step = "case b of
      EnvironmentBinding name rule \<Rightarrow>
        bind (get_implementation_path w impl) (do_env_binding w name rule)
    | OtherBinding \<Rightarrow> return ()"
  from Cons.prems(1) have "bind ?step (\<lambda>_. do_bindings w impl bs) s = (Inr (), s')"
    by simp
  from bind_succeeds [OF this] obtain s1 where
    step: "?step s = (Inr (), s1)" and rest: "do_bindings w impl bs s1 = (Inr (), s')"
    by auto
  have "quiet ?step"
    by (cases b) (simp_all add: quiet_bind quiet_get_implementation_path quiet_do_env_binding)
  from quiet_events [OF this step] obtain e1 where
    e1: "events s1 = events s @ e1" "environ s1 = replay (environ s) e1"
    by blast
  from quiet_events [OF quiet_do_bindings rest] obtain e2 where e2: "events s' = events s1 @ e2"
    by blast
  show ?case
  proof (cases "b = EnvironmentBinding name rule")
    case True
    with step have "bind (get_implementation_path w impl) (do_env_binding w name rule) s
        = (Inr (), s1)"
      by simp
    from bind_succeeds [OF this] obtain path s0 where
      p: "get_implementation_path w impl s = (Inr path, s0)"
      and d: "do_env_binding w name rule path s0 = (Inr (), s1)"
      by auto
    from quiet_events [OF quiet_get_implementation_path p] obtain e0 where
      e0: "events s0 = events s @ e0" "environ s0 = replay (environ s) e0"
      by blast
    let ?v = "get_value w name rule path (replay (environ s) e0 name)"
    from d e0(2) have "events s1 = events s0 @ [SetEnv name ?v, Info (name @ ''='' @ ?v)]"
      by (auto simp: do_env_binding_def Let_def)
    with e0(1) e2 have "events s' = events s @ e0 @ SetEnv name ?v # (Info (name @ ''='' @ ?v) # e2)"
      by simp
    with p show ?thesis by (metis fst_conv)
  next
    case False
    with Cons.prems(2) have "EnvironmentBinding name rule \<in> set bs" by simp
    from Cons.IH [OF rest this] obtain pre post path where
      i: "events s' = events s1 @ pre
            @ SetEnv name (get_value w name rule path (replay (environ s1) pre name)) # post"
         "fst (get_implementation_path w impl s1) = Inr path"
      by blast
    from i(1) e1 have "events s' = events s @ (e1 @ pre)
        @ SetEnv name (get_value w name rule path (replay (environ s) (e1 @ pre) name)) # post"
      by (simp add: replay_append)
    moreover from i(2) have "fst (get_implementation_path w impl s) = Inr path"
      using path_state_independent [of w impl s s1] by simp
    ultimately show ?thesis by blast
  qed
qed

lemma do_selections_applies:
  assumes "do_selections w sels xs s = (Inr (), s')"
    and "sel \<in> set xs"
    and "EnvironmentBinding name rule \<in> set (sel_bindings sel)"
  shows "\<exists>pre post path.
           events s' = events s @ pre
             @ SetEnv name (get_value w name rule path (replay (environ s) pre name)) # post
         \<and> fst (get_implementation_path w sel s) = Inr path"
  using assms(1,2)
proof (induction xs arbitrary: s)
  case Nil
  then show ?case by simp
next
  case (Cons x xs)
  from Cons.prems(1) have "bind (do_bindings w x (sel_bindings x))
      (\<lambda>_. bind (do_dependencies w sels (sel_dependencies x))
              (\<lambda>_. do_selections w sels xs)) s = (Inr (), s')"
    by simp
  from bind_succeeds [OF this] obtain s1 where
    own: "do_bindings w x (sel_bindings x) s = (Inr (), s1)"
    and after: "bind (do_dependencies w sels (sel_dependencies x))
              (\<lambda>_. do_selections w sels xs) s1 = (Inr (), s')"
    by auto
  from bind_succeeds [OF after] obtain s2 where
    deps: "do_dependencies w sels (sel_dependencies x) s1 = (Inr (), s2)"
    and rest: "do_selections w sels xs s2 = (Inr (), s')"
    by auto
  from quiet_events [OF quiet_do_bindings own] obtain e1 where
    e1: "events s1 = events s @ e1" "environ s1 = replay (environ s) e1"
    by blast
  from quiet_events [OF quiet_do_dependencies deps] obtain e2 where
    e2: "events s2 = events s1 @ e2" "environ s2 = replay (environ s1) e2"
    by blast
  from quiet_events [OF quiet_do_selections rest] obtain e3 where e3: "events s' = events s2 @ e3"
    by blast
  show ?case
  proof (cases "sel = x")
    case True
    from do_bindings_applies [OF own] assms(3) True obtain pre post path where
      i: "events s1 = events s @ pre
            @ SetEnv name (get_value w name rule path (replay (environ s) pre name)) # post"
         "fst (get_implementation_path w sel s) = Inr path"
      by blast
    from i(1) e2(1) e3 have "events s' = events s @ pre
        @ SetEnv name (get_value w name rule path (replay (environ s) pre name)) # (post @ e2 @ e3)"
      by simp
    with i(2) show ?thesis by blast
  next
    case False
    with Cons.prems(2) have "sel \<in> set xs" by simp
    from Cons.IH [OF rest this] obtain pre post path where
      i: "events s' = events s2 @ pre
            @ SetEnv name (get_value w name rule path (replay (environ s2) pre name)) # post"
         "fst (get_implementation_path w sel s2) = Inr path"
      by blast
    from i(1) e1 e2 have "events s' = events s @ (e1 @ e2 @ pre)
        @ SetEnv name (get_value w name rule path (replay (environ s) (e1 @ e2 @ pre) name)) # post"
      by (simp add: replay_append)
    moreover from i(2) have "fst (get_implementation_path w sel s) = Inr path"
      using path_state_independent [of w sel s s2] by simp
    ultimately show ?thesis by blast
  qed
qed

text \<open>
  Claim C10. Whenever the binding pass gets through, every environment binding among
  the own bindings of every selection of the resolution has been applied, whatever the
  selection's id, so also when it starts with \<^verbatim>\<open>package:\<close>. The selection's path is the
  one \<^verbatim>\<open>_get_implementation_path\<close> returns for it (its \<^verbatim>\<open>local_path\<close>, or the store's
  path for its digests). At some point of the pass (after the events \<^verbatim>\<open>pre\<close>) the
  binding's variable was assigned the value that \<^verbatim>\<open>get_value\<close> computes from that path and
  from the variable's value at that point. The environment the pass leaves is the one
  it found with all its assignments carried out in order, this one among them, so the
  variable is set in it.
\<close>

theorem own_bindings_applied:
  assumes "apply_bindings w selections s = (Inr root_sel, s')"
    and "(key, sel) \<in> set (sels_selections selections)"
    and "EnvironmentBinding name rule \<in> set (sel_bindings sel)"
  shows "\<exists>pre post path.
           events s' = events s @ pre
             @ SetEnv name (get_value w name rule path (replay (environ s) pre name)) # post
         \<and> fst (get_implementation_path w sel s) = Inr path
         \<and> environ s' = replay (environ s)
             (pre @ SetEnv name (get_value w name rule path (replay (environ s) pre name)) # post)
         \<and> environ s' name \<noteq> None"
proof -
  let ?sels = "sels_selections selections"
  from assms(1) have "bind (do_selections w ?sels (map snd ?sels))
      (\<lambda>_. bind (lookup_sel ?sels (sels_interface selections))
        (\<lambda>root_sel. bind (do_dependencies w ?sels (cmd_requires (sels_command selections)))
           (\<lambda>_. return root_sel))) s = (Inr root_sel, s')"
    by (simp add: apply_bindings_def Let_def)
  from bind_succeeds [OF this] obtain s1 where
    pass: "do_selections w ?sels (map snd ?sels) s = (Inr (), s1)"
    and rest: "bind (lookup_sel ?sels (sels_interface selections))
        (\<lambda>root_sel. bind (do_dependencies w ?sels (cmd_requires (sels_command selections)))
           (\<lambda>_. return root_sel)) s1 = (Inr root_sel, s')"
    by auto
  have "quiet (bind (lookup_sel ?sels (sels_interface selections))
        (\<lambda>root_sel. bind (do_dependencies w ?sels (cmd_requires (sels_command selections)))
           (\<lambda>_. return root_sel)))"
    by (intro quiet_bind quiet_lookup_sel quiet_do_dependencies quiet_return)
  from quiet_events [OF this rest] obtain e2 where e2: "events s' = events s1 @ e2" by blast
  from assms(2) have "sel \<in> set (map snd ?sels)" by force
  from do_selections_applies [OF pass this assms(3)] obtain pre post path where
    i: "events s1 = events s @ pre
          @ SetEnv name (get_value w name rule path (replay (environ s) pre name)) # post"
       "fst (get_implementation_path w sel s) = Inr path"
    by blast
  let ?v = "get_value w name rule path (replay (environ s) pre name)"
  from i(1) e2 have ev: "events s' = events s @ pre @ SetEnv name ?v # (post @ e2)"
    by simp
  from quiet_events [OF quiet_apply_bindings assms(1)] obtain evs where
    all: "events s' = events s @ evs" "environ s' = replay (environ s) evs"
    by blast
  from ev all(1) have "evs = pre @ SetEnv name ?v # (post @ e2)" by simp
  with all(2) have env: "environ s' = replay (environ s) (pre @ SetEnv name ?v # (post @ e2))"
    by simp
  have "replay (environ s) (pre @ SetEnv name ?v # (post @ e2)) name \<noteq> None"
    by (rule replay_set [where v = ?v]) simp
  with env have "environ s' name \<noteq> None" by simp
  with ev i(2) env show ?thesis by blast
qed

lemma example_python_home:
  "environ (snd (apply_bindings example_world example_selections example_process)) ''PYTHONHOME''
     = Some ''/usr''"
  by (simp add: example_defs action_defs)

theorem own_bindings_applied_witness:
  "startswith (sel_id example_python) ''package:''
   \<and> fst (apply_bindings example_world example_selections example_process) = Inr example_app
   \<and> (''python'', example_python) \<in> set (sels_selections example_selections)
   \<and> EnvironmentBinding ''PYTHONHOME'' () \<in> set (sel_bindings example_python)
   \<and> fst (get_implementation_path example_world example_python example_process) = Inr ''/usr''
   \<and> (\<exists>pre post.
         events (snd (apply_bindings example_world example_selections example_process))
           = events example_process @ pre
               @ SetEnv ''PYTHONHOME'' (get_value example_world ''PYTHONHOME'' () ''/usr''
                   (replay (environ example_process) pre ''PYTHONHOME'')) # post
         \<and> environ (snd (apply_bindings example_world example_selections example_process))
           = replay (environ example_process) (pre
               @ SetEnv ''PYTHONHOME'' (get_value example_world ''PYTHONHOME'' () ''/usr''
                   (replay (environ example_process) pre ''PYTHONHOME'')) # post))
   \<and> environ (snd (apply_bindings example_world example_selections example_process)) ''PYTHONHOME''
       = Some ''/usr''"
proof -
  have h0: "startswith (sel_id example_python) ''package:''"
    by (simp add: example_python_def startswith_def)
  obtain r s' where a: "apply_bindings example_world example_selections example_process = (r, s')"
    by (cases "apply_bindings example_world example_selections example_process")
  with example_bindings_succeed have h1:
    "apply_bindings example_world example_selections example_process = (Inr example_app, s')"
    by simp
  have h2: "(''python'', example_python) \<in> set (sels_selections example_selections)"
    by (simp add: example_selections_def)
  have h3: "EnvironmentBinding ''PYTHONHOME'' () \<in> set (sel_bindings example_python)"
    by (simp add: example_python_def)
  have p: "fst (get_implementation_path example_world example_python example_process)
      = Inr ''/usr''"
    by (simp add: get_implementation_path_def example_python_def return_def)
  from own_bindings_applied [OF h1 h2 h3] p obtain pre post where
    "events s' = events example_process @ pre
       @ SetEnv ''PYTHONHOME'' (get_value example_world ''PYTHONHOME'' () ''/usr''
           (replay (environ example_process) pre ''PYTHONHOME'')) # post"
    "environ s' = replay (environ example_process) (pre
       @ SetEnv ''PYTHONHOME'' (get_value example_world ''PYTHONHOME'' () ''/usr''
           (replay (environ example_process) pre ''PYTHONHOME'')) # post)"
    by auto
  with h1 have e: "\<exists>pre post.
         events (snd (apply_bindings example_world example_selections example_process))
           = events example_process @ pre
               @ SetEnv ''PYTHONHOME'' (get_value example_world ''PYTHONHOME'' () ''/usr''
                   (replay (environ example_process) pre ''PYTHONHOME'')) # post
         \<and> environ (snd (apply_bindings example_world example_selections example_process))
           = replay (environ example_process) (pre
               @ SetEnv ''PYTHONHOME'' (get_value example_world ''PYTHONHOME'' () ''/usr''
                   (replay (environ example_process) pre ''PYTHONHOME'')) # post)"
    by auto
  from h0 h1 h2 h3 p e example_python_home show ?thesis by simp
qed

section \<open>Properties of the test harness\<close>

lemma digit_value_digit_char: "d < 10 \<Longrightarrow> digit_value (digit_char d) = d"
proof -
  assume "d < 10"
  then have "d \<in> {0, 1, 2, 3, 4, 5, 6, 7, 8, 9}" by auto
  then show ?thesis by (auto simp: digit_char_def digit_value_def)
qed

lemma nat_of_decimal_snoc:
  "nat_of_decimal (digits @ [c]) = 10 * nat_of_decimal digits + digit_value c"
  by (simp add: nat_of_decimal_def)

lemma nat_of_decimal_decimal: "nat_of_decimal (decimal n) = n"
proof (induction n rule: decimal.induct)
  case (1 n)
  show ?case
  proof (cases "n < 10")
    case True
    then show ?thesis
      by (simp add: decimal.simps [of n] nat_of_decimal_def digit_value_digit_char)
  next
    case False
    with "1" have "nat_of_decimal (decimal (n div 10)) = n div 10" by simp
    with False show ?thesis
      by (simp add: decimal.simps [of n] nat_of_decimal_snoc digit_value_digit_char)
  qed
qed

lemma decimal_256: "decimal 256 = ''256''"
  by (simp add: decimal.simps digit_char_def)

lemma launch_dry_run:
  "launch w True pa s = (r, c) \<Longrightarrow> r = Inr Returned"
  by (cases pa) (auto simp: launch_def bind_def emit_def return_def)

lemma dry_run_not_replaced:
  "fst (execute_selections w selections prog_args True main wrapper s) \<noteq> Inr (Replaced p a)"
proof -
  obtain r c where e: "execute_selections w selections prog_args True main wrapper s = (r, c)"
    by (cases "execute_selections w selections prog_args True main wrapper s")
  have "r \<noteq> Inr (Replaced p a)"
  proof
    assume "r = Inr (Replaced p a)"
    with e have "bind (apply_bindings w selections)
       (\<lambda>root_sel. bind (plan w root_sel (sels_command selections) prog_args main wrapper)
          (launch w True)) s = (Inr (Replaced p a), c)"
      by (simp add: execute_selections_def)
    from bind_succeeds [OF this] obtain root_sel s1 where
      "bind (plan w root_sel (sels_command selections) prog_args main wrapper) (launch w True) s1
         = (Inr (Replaced p a), c)"
      by auto
    from bind_succeeds [OF this] obtain pa s2 where "launch w True pa s2 = (Inr (Replaced p a), c)"
      by auto
    from launch_dry_run [OF this] show False by simp
  qed
  with e show ?thesis by simp
qed

lemma example_dry_run_child:
  "run_child example_world example_selections [''a'', ''b''] True None example_process
     = Some (''Would execute: /store/abc/bin/run a b'' @ [CHR 0x0A], 256)"
  by (simp add: run_child_def written_def wait_status_exited_def launch_defs example_defs
        action_defs)

lemma example_missing_child:
  "run_child example_world example_selections [''a''] False (Some ''missing'') example_process
     = Some (''Traceback (most recent call last)'', 256)"
  by (simp add: run_child_def written_def wait_status_exited_def launch_defs example_defs
        action_defs)

lemma example_missing_raises:
  "fst (execute_selections example_world example_selections [''a''] False (Some ''missing'') None
          (example_process\<lparr>events := []\<rparr>))
     = Inl (MissingProgramError ''/store/abc/bin/missing'' ''sha1=abc'' ''bin/missing'')"
  by (simp add: launch_defs example_defs action_defs)

lemma example_replaced_child:
  "run_child example_world example_selections [''a''] False None example_process
     = Some (''hello'', 0)"
  by (simp add: run_child_def written_def wait_status_exited_def launch_defs example_defs
        action_defs)

text \<open>
  Claim C2, as amended. Whenever the child terminates, \<^verbatim>\<open>test_selections\<close> returns, and
  what it returns is a value, never an exception, with the parent's process as before
  but for its own log message. When \<^verbatim>\<open>execute_selections\<close> raises in the child, the text
  is what the child wrote, then the traceback, then the line for status 256; when it
  returns, what the child wrote and that line; when it replaced the child's image by
  a program that wrote \<^verbatim>\<open>out\<close> and ended with \<^verbatim>\<open>status\<close>, what the child wrote, then
  \<^verbatim>\<open>out\<close>, then, exactly when \<^verbatim>\<open>status\<close> is not zero, the line
  \<^verbatim>\<open>Error from child process: exit code = \<close> followed by the decimal digits of \<^verbatim>\<open>status\<close>.
\<close>

theorem test_selections_returns:
  "(execute_selections w selections prog_args dry_run main None (s\<lparr>events := []\<rparr>) = (Inl e, c)
      \<longrightarrow> test_selections w selections prog_args dry_run main wrapper s
         = Some (Inr (written w (events c) @ format_exc w e
                        @ ''Error from child process: exit code = 256''),
                 s\<lparr>events := events s @ [Info ''Waiting for test process to finish...'']\<rparr>))
   \<and> (execute_selections w selections prog_args dry_run main None (s\<lparr>events := []\<rparr>)
         = (Inr Returned, c)
      \<longrightarrow> test_selections w selections prog_args dry_run main wrapper s
         = Some (Inr (written w (events c) @ ''Error from child process: exit code = 256''),
                 s\<lparr>events := events s @ [Info ''Waiting for test process to finish...'']\<rparr>))
   \<and> (execute_selections w selections prog_args dry_run main None (s\<lparr>events := []\<rparr>)
         = (Inr (Replaced p a), c)
       \<and> program w p a (environ c) = Some (out, status)
      \<longrightarrow> test_selections w selections prog_args dry_run main wrapper s
         = Some (Inr (written w (events c) @ out
                        @ (if status = 0 then []
                           else ''Error from child process: exit code = '' @ decimal status)),
                 s\<lparr>events := events s @ [Info ''Waiting for test process to finish...'']\<rparr>))
   \<and> nat_of_decimal (decimal status) = status"
  by (simp add: test_selections_def run_child_def status_line_def wait_status_exited_def
        decimal_256 nat_of_decimal_decimal)

lemma example_missing_written:
  "written example_world (events (snd (execute_selections example_world example_selections [''a'']
      False (Some ''missing'') None (example_process\<lparr>events := []\<rparr>)))) = []"
  by (simp add: written_def launch_defs example_defs action_defs)

lemma example_replaced:
  "fst (execute_selections example_world example_selections [''a''] False None None
          (example_process\<lparr>events := []\<rparr>))
     = Inr (Replaced ''/store/abc/bin/run'' [''a''])"
  by (simp add: launch_defs example_defs action_defs)

lemma example_replaced_written:
  "written example_world (events (snd (execute_selections example_world example_selections [''a'']
      False None None (example_process\<lparr>events := []\<rparr>)))) = []"
  by (simp add: written_def launch_defs example_defs action_defs)

theorem test_selections_returns_witness:
  "fst (execute_selections example_world example_selections [''a''] False (Some ''missing'') None
          (example_process\<lparr>events := []\<rparr>))
     = Inl (MissingProgramError ''/store/abc/bin/missing'' ''sha1=abc'' ''bin/missing'')
   \<and> test_selections example_world example_selections [''a''] False (Some ''missing'') None
        example_process
     = Some (Inr (''Traceback (most recent call last)''
                   @ ''Error from child process: exit code = 256''),
             example_process\<lparr>events := [Info ''Waiting for test process to finish...'']\<rparr>)
   \<and> fst (execute_selections example_world example_selections [''a''] False None None
          (example_process\<lparr>events := []\<rparr>))
     = Inr (Replaced ''/store/abc/bin/run'' [''a''])
   \<and> test_selections example_world example_selections [''a''] False None None example_process
     = Some (Inr ''hello'',
             example_process\<lparr>events := [Info ''Waiting for test process to finish...'']\<rparr>)"
proof -
  have ev: "events example_process = []"
    by (simp add: example_process_def)
  obtain c where m: "execute_selections example_world example_selections [''a''] False
      (Some ''missing'') None (example_process\<lparr>events := []\<rparr>)
       = (Inl (MissingProgramError ''/store/abc/bin/missing'' ''sha1=abc'' ''bin/missing''), c)"
    using example_missing_raises
    by (cases "execute_selections example_world example_selections [''a''] False
      (Some ''missing'') None (example_process\<lparr>events := []\<rparr>)") auto
  with example_missing_written have mw: "written example_world (events c) = []"
    by simp
  from test_selections_returns [where w = example_world and selections = example_selections
      and prog_args = "[''a'']" and dry_run = False and main = "Some ''missing''"
      and s = example_process and c = c and wrapper = None
      and e = "MissingProgramError ''/store/abc/bin/missing'' ''sha1=abc'' ''bin/missing''"] m mw ev
  have c1: "test_selections example_world example_selections [''a''] False (Some ''missing'') None
        example_process
     = Some (Inr (''Traceback (most recent call last)''
                   @ ''Error from child process: exit code = 256''),
             example_process\<lparr>events := [Info ''Waiting for test process to finish...'']\<rparr>)"
    by simp
  obtain d where r: "execute_selections example_world example_selections [''a''] False
      None None (example_process\<lparr>events := []\<rparr>)
       = (Inr (Replaced ''/store/abc/bin/run'' [''a'']), d)"
    using example_replaced
    by (cases "execute_selections example_world example_selections [''a''] False
      None None (example_process\<lparr>events := []\<rparr>)") auto
  with example_replaced_written have rw: "written example_world (events d) = []"
    by simp
  have pr: "program example_world ''/store/abc/bin/run'' [''a''] (environ d) = Some (''hello'', 0)"
    by simp
  from test_selections_returns [where w = example_world and selections = example_selections
      and prog_args = "[''a'']" and dry_run = False and main = None
      and s = example_process and c = d and wrapper = None
      and p = "''/store/abc/bin/run''" and a = "[''a'']" and out = "''hello''" and status = 0]
    r rw pr ev
  have c2: "test_selections example_world example_selections [''a''] False None None
        example_process
     = Some (Inr ''hello'',
             example_process\<lparr>events := [Info ''Waiting for test process to finish...'']\<rparr>)"
    by simp
  from example_missing_raises c1 example_replaced c2 show ?thesis by blast
qed

text \<open>
  Claim C2 as stated fails for an invocation whose child never terminates: the program
  that replaced the child's image runs for ever, \<^verbatim>\<open>os.waitpid\<close> blocks, and
  \<^verbatim>\<open>test_selections\<close> does not return.
\<close>

theorem hung_child_counterexample:
  "fst (execute_selections example_hung_world example_selections [''a''] False None None
          (example_process\<lparr>events := []\<rparr>))
     = Inr (Replaced ''/store/abc/bin/run'' [''a''])
   \<and> test_selections example_hung_world example_selections [''a''] False None None
        example_process = None"
  by (simp add: test_selections_def run_child_def launch_defs example_defs action_defs)

text \<open>
  Claim C9. Whenever \<^verbatim>\<open>execute_selections\<close> in the child does not replace the process
  image, and so in every dry run, also a successful one, the child ends with
  \<^verbatim>\<open>os._exit(1)\<close>: the status is not zero, and what \<^verbatim>\<open>test_selections\<close> returns ends with
  the line \<^verbatim>\<open>Error from child process: exit code = 256\<close>.
\<close>

theorem child_exits_with_one:
  assumes "dry_run \<or> (\<forall>p a. fst (execute_selections w selections prog_args dry_run main None
              (s\<lparr>events := []\<rparr>)) \<noteq> Inr (Replaced p a))"
  shows "\<exists>results.
           run_child w selections prog_args dry_run main s = Some (results, wait_status_exited 1)
         \<and> wait_status_exited 1 \<noteq> 0
         \<and> test_selections w selections prog_args dry_run main wrapper s
             = Some (Inr (results @ ''Error from child process: exit code = 256''),
                     s\<lparr>events := events s @ [Info ''Waiting for test process to finish...'']\<rparr>)"
proof -
  obtain r c where e: "execute_selections w selections prog_args dry_run main None
      (s\<lparr>events := []\<rparr>) = (r, c)"
    by (cases "execute_selections w selections prog_args dry_run main None (s\<lparr>events := []\<rparr>)")
  have n: "r \<noteq> Inr (Replaced p a)" for p a
  proof (cases dry_run)
    case True
    with e dry_run_not_replaced [of w selections prog_args main None "s\<lparr>events := []\<rparr>" p a]
    show ?thesis by simp
  next
    case False
    with assms e show ?thesis by simp
  qed
  have "\<exists>results. run_child w selections prog_args dry_run main s
      = Some (results, wait_status_exited 1)"
  proof (cases r)
    case (Inl err)
    with e show ?thesis by (simp add: run_child_def)
  next
    case (Inr l)
    with n have "l = Returned" by (cases l) auto
    with e Inr show ?thesis by (simp add: run_child_def)
  qed
  then obtain results where
    rc: "run_child w selections prog_args dry_run main s = Some (results, wait_status_exited 1)"
    by blast
  have w1: "wait_status_exited 1 = 256" by (simp add: wait_status_exited_def)
  from rc have rc': "run_child w selections prog_args dry_run main s = Some (results, 256)"
    by (simp only: w1)
  have "test_selections w selections prog_args dry_run main wrapper s
             = Some (Inr (results @ ''Error from child process: exit code = 256''),
                     s\<lparr>events := events s @ [Info ''Waiting for test process to finish...'']\<rparr>)"
    by (simp add: test_selections_def rc' status_line_def decimal_256)
  moreover have "wait_status_exited 1 \<noteq> 0"
    by (simp add: wait_status_exited_def)
  ultimately show ?thesis using rc by blast
qed

theorem child_exits_with_one_witness:
  "run_child example_world example_selections [''a'', ''b''] True None example_process
     = Some (''Would execute: /store/abc/bin/run a b'' @ [CHR 0x0A], wait_status_exited 1)
   \<and> test_selections example_world example_selections [''a'', ''b''] True None None
        example_process
     = Some (Inr (''Would execute: /store/abc/bin/run a b'' @ [CHR 0x0A]
                   @ ''Error from child process: exit code = 256''),
             example_process\<lparr>events := [Info ''Waiting for test process to finish...'']\<rparr>)"
proof -
  have ev: "events example_process = []"
    by (simp add: example_process_def)
  have w1: "wait_status_exited 1 = 256"
    by (simp add: wait_status_exited_def)
  from child_exits_with_one [of True example_world example_selections "[''a'', ''b'']" None
      example_process None]
  have "test_selections example_world example_selections [''a'', ''b''] True None None
        example_process
     = Some (Inr (''Would execute: /store/abc/bin/run a b'' @ [CHR 0x0A]
                   @ ''Error from child process: exit code = 256''),
             example_process\<lparr>events := [Info ''Waiting for test process to finish...'']\<rparr>)"
    by (auto simp: example_dry_run_child ev)
  with example_dry_run_child w1 show ?thesis by simp
qed

end
